theory Spec2Isabelle
  imports Main "HOL-Library.Sublist"
begin

section \<open>Shared data: paths, clock readings, decimal formatting\<close>

text \<open>
  A \<^verbatim>\<open>pathlib.Path\<close> is the list of its components; \<^verbatim>\<open>str(path)\<close> joins them with
  a slash. Strings are byte lists.
\<close>

type_synonym path = "string list"

fun str_path :: "path \<Rightarrow> string" where
  "str_path [] = ''.''"
| "str_path [c] = c"
| "str_path (c # cs) = c @ ''/'' @ str_path cs"

text \<open>One reading of \<^verbatim>\<open>datetime.now()\<close>.\<close>

record datetime =
  year :: nat
  month :: nat
  day :: nat
  hour :: nat
  minute :: nat
  second :: nat

definition digit_char :: "nat \<Rightarrow> char" where
  "digit_char n = (''0123456789'' ! (n mod 10))"

definition pad2 :: "nat \<Rightarrow> string" where
  "pad2 n = [digit_char (n div 10), digit_char n]"

definition pad4 :: "nat \<Rightarrow> string" where
  "pad4 n = [digit_char (n div 1000), digit_char (n div 100), digit_char (n div 10), digit_char n]"

text \<open>\<^verbatim>\<open>str(n)\<close> of a non-negative integer.\<close>

fun str_nat :: "nat \<Rightarrow> string" where
  "str_nat n = (if n < 10 then [digit_char n] else str_nat (n div 10) @ [digit_char n])"

declare str_nat.simps [simp del]

text \<open>
  \<^verbatim>\<open>strftime("%Y%m%d_%H%M%S")\<close>. A \<^verbatim>\<open>datetime\<close> has a year from 1 to 9999; for the years
  from 1000 on, which is where \<^verbatim>\<open>datetime.now()\<close> lies, \<^verbatim>\<open>%Y\<close> prints exactly four digits.
\<close>

definition strftime_compact :: "datetime \<Rightarrow> string" where
  "strftime_compact d =
     pad4 (year d) @ pad2 (month d) @ pad2 (day d) @ ''_'' @
     pad2 (hour d) @ pad2 (minute d) @ pad2 (second d)"

text \<open>\<^verbatim>\<open>strftime('%Y-%m-%d %H:%M:%S')\<close>, the format of the waitlist lines.\<close>

definition strftime_line :: "datetime \<Rightarrow> string" where
  "strftime_line d =
     pad4 (year d) @ ''-'' @ pad2 (month d) @ ''-'' @ pad2 (day d) @ '' '' @
     pad2 (hour d) @ '':'' @ pad2 (minute d) @ '':'' @ pad2 (second d)"

definition valid_datetime :: "datetime \<Rightarrow> bool" where
  "valid_datetime d \<longleftrightarrow>
     1000 \<le> year d \<and> year d \<le> 9999 \<and> 1 \<le> month d \<and> month d \<le> 12 \<and>
     1 \<le> day d \<and> day d \<le> 31 \<and> hour d < 24 \<and> minute d < 60 \<and> second d < 60"

definition datetime_key :: "datetime \<Rightarrow> nat list" where
  "datetime_key d = [year d, month d, day d, hour d, minute d, second d]"

fun lex_le :: "nat list \<Rightarrow> nat list \<Rightarrow> bool" where
  "lex_le [] ys = True"
| "lex_le (x # xs) [] = False"
| "lex_le (x # xs) (y # ys) = (x < y \<or> (x = y \<and> lex_le xs ys))"

definition datetime_le :: "datetime \<Rightarrow> datetime \<Rightarrow> bool" where
  "datetime_le a b = lex_le (datetime_key a) (datetime_key b)"

section \<open>The world the scripts run in\<close>

text \<open>
  Every effect of the scripts is an entry of the trace, in program order. The files are a
  map from paths to contents, the directories a list of paths. \<open>reads\<close> counts the clock readings taken so far.
\<close>

datatype event =
    Attempt string
  | Sleep int
  | Wrote path
  | Copied path path
  | Partial path

record world =
  files :: "path \<rightharpoonup> string"
  dirs :: "path list"
  trace :: "event list"
  reads :: nat

text \<open>
  The collaborators outside the repository, as oracles. The first argument of the
  network and file oracles is the length of the trace at the call, so that two calls
  with the same arguments may end differently. For the network and the decoder \<open>None\<close>
  stands for a raised exception. A file that is written is first opened, which creates or
  empties it, and then filled: the oracle \<open>write_fault\<close> says whether the \<^verbatim>\<open>open\<close> raises
  (\<open>OpenFails\<close>, the file system is as before) or the write raises after that many
  characters have reached the file (\<open>WriteFails\<close>), or neither (\<open>None\<close>).
\<close>

datatype fault = OpenFails | WriteFails nat

record env =
  images_generate :: "nat \<Rightarrow> string \<Rightarrow> string \<Rightarrow> string option"
  requests_get :: "nat \<Rightarrow> string \<Rightarrow> string option"
  write_fault :: "nat \<Rightarrow> path \<Rightarrow> fault option"
  image_open :: "string \<Rightarrow> (nat \<times> nat \<times> string) option"
  wall_clock :: "nat \<Rightarrow> datetime"

definition now :: "env \<Rightarrow> world \<Rightarrow> datetime \<times> world" where
  "now e w = (wall_clock e (reads w), w\<lparr>reads := Suc (reads w)\<rparr>)"

definition log_event :: "event \<Rightarrow> world \<Rightarrow> world" where
  "log_event ev w = w\<lparr>trace := trace w @ [ev]\<rparr>"

text \<open>The file at the path can be opened and written to the end.\<close>

definition write_ok :: "env \<Rightarrow> nat \<Rightarrow> path \<Rightarrow> bool" where
  "write_ok e i p \<longleftrightarrow> write_fault e i p = None"

text \<open>
  \<^verbatim>\<open>with open(p, 'w') as f: f.write(content)\<close>. The \<^verbatim>\<open>open\<close> creates the file or empties
  it; a write that raises leaves the file with the characters written before the
  exception, none of them included. The flag says whether the block ended without an
  exception; \<open>Wrote\<close> is logged for a complete write, \<open>Partial\<close> for one that was cut.
\<close>

definition write_file :: "env \<Rightarrow> path \<Rightarrow> string \<Rightarrow> world \<Rightarrow> bool \<times> world" where
  "write_file e p content w =
     (case write_fault e (length (trace w)) p of
        None \<Rightarrow> (True, log_event (Wrote p) (w\<lparr>files := (files w)(p \<mapsto> content)\<rparr>))
      | Some OpenFails \<Rightarrow> (False, w)
      | Some (WriteFails n) \<Rightarrow>
          (False, log_event (Partial p) (w\<lparr>files := (files w)(p \<mapsto> take n content)\<rparr>)))"

text \<open>\<^verbatim>\<open>time.sleep(delay)\<close> raises \<^verbatim>\<open>ValueError\<close> on a negative delay.\<close>

definition sleep :: "int \<Rightarrow> world \<Rightarrow> world option" where
  "sleep delay w = (if delay < 0 then None else Some (log_event (Sleep delay) w))"

section \<open>Asset generator (generate_ai_images.py)\<close>

record persona =
  name :: string
  age_range :: string
  description :: string
  prompt :: string

text \<open>\<^verbatim>\<open>self.consumer_personas\<close>: a dict in insertion order.\<close>

type_synonym registry = "(string \<times> persona) list"

definition consumer_personas :: registry where
  "consumer_personas =
    [(''estate_inheritor'', \<lparr>name = ''Estate Inheritor'', age_range = ''35-55'',
        description = ''Professional woman who inherited family antiques and collectibles'',
        prompt = ''Professional portrait of a 45-year-old woman in business attire, standing in a home office with vintage furniture and inherited antiques in the background, warm lighting, confident expression, realistic photography style''\<rparr>),
     (''reseller_entrepreneur'', \<lparr>name = ''Reseller Entrepreneur'', age_range = ''25-40'',
        description = ''Young professional who buys and sells items for profit'',
        prompt = ''Portrait of a 32-year-old person in casual business attire, sitting at a desk with multiple items for resale (vintage items, electronics, collectibles) organized around them, modern apartment setting, entrepreneurial vibe, realistic photography style''\<rparr>),
     (''antique_collector'', \<lparr>name = ''Antique Collector'', age_range = ''50-70'',
        description = ''Mature collector evaluating valuable items'',
        prompt = ''Distinguished 60-year-old person examining an antique item with a magnifying glass, surrounded by carefully curated vintage items and books, library or study setting, sophisticated atmosphere, realistic photography style''\<rparr>),
     (''small_business_owner'', \<lparr>name = ''Small Business Owner'', age_range = ''30-50'',
        description = ''Shop owner who needs quick item valuations'',
        prompt = ''Portrait of a 40-year-old small business owner in their vintage/consignment shop, surrounded by diverse items for sale, friendly and approachable expression, natural lighting, realistic photography style''\<rparr>)]"

definition images_dir :: path where
  "images_dir = [''generated_images'']"

text \<open>The result dict of a successful generation.\<close>

record generated_asset =
  persona_key :: string
  persona_name :: string
  image_url :: string
  file_path :: string
  filename :: string
  size :: string
  format :: string
  timestamp :: string
  prompt_used :: string

text \<open>
  The step of \<^verbatim>\<open>generate_consumer_image\<close> that raised inside its \<^verbatim>\<open>try\<close>; the handler
  wraps each of them in \<^verbatim>\<open>Exception("Failed to generate image for ...")\<close>.
  \<open>UnknownPersona\<close> is the \<^verbatim>\<open>ValueError\<close> raised before the \<^verbatim>\<open>try\<close>; \<open>SleepError\<close> is
  the \<^verbatim>\<open>ValueError\<close> of \<^verbatim>\<open>time.sleep\<close>.
\<close>

datatype cause = ApiError | DownloadError | WriteError | VerifyError

datatype error = UnknownPersona string | GenerationFailed string cause | SleepError

definition make_filename :: "string \<Rightarrow> string \<Rightarrow> string" where
  "make_filename key ts = key @ ''_'' @ ts @ ''.png''"

definition generate_consumer_image ::
  "registry \<Rightarrow> env \<Rightarrow> string \<Rightarrow> string \<Rightarrow> world \<Rightarrow> (error + generated_asset) \<times> world" where
  "generate_consumer_image reg e key sz w0 =
     (let w = log_event (Attempt key) w0 in
      case map_of reg key of
        None \<Rightarrow> (Inl (UnknownPersona key), w)
      | Some p \<Rightarrow>
         (case images_generate e (length (trace w)) (prompt p) sz of
            None \<Rightarrow> (Inl (GenerationFailed (name p) ApiError), w)
          | Some url \<Rightarrow>
             (let (t, w1) = now e w;
                  ts = strftime_compact t;
                  fname = make_filename key ts;
                  fpath = images_dir @ [fname]
              in case requests_get e (length (trace w1)) url of
                   None \<Rightarrow> (Inl (GenerationFailed (name p) DownloadError), w1)
                 | Some content \<Rightarrow>
                    (case write_file e fpath content w1 of
                       (False, w2) \<Rightarrow> (Inl (GenerationFailed (name p) WriteError), w2)
                     | (True, w2) \<Rightarrow>
                        (case image_open e (the (files w2 fpath)) of
                           None \<Rightarrow> (Inl (GenerationFailed (name p) VerifyError), w2)
                         | Some (width, height, fmt) \<Rightarrow>
                            (Inr \<lparr>persona_key = key, persona_name = name p, image_url = url,
                                  file_path = str_path fpath, filename = fname,
                                  size = str_nat width @ ''x'' @ str_nat height,
                                  format = fmt, timestamp = ts, prompt_used = prompt p\<rparr>,
                             w2))))))"

text \<open>An entry of the list \<^verbatim>\<open>generate_all_personas\<close> returns: a result dict, or a dict
  with the key \<^verbatim>\<open>'error'\<close>.\<close>

datatype outcome =
    Success generated_asset
  | Failure string error string

fun has_error :: "outcome \<Rightarrow> bool" where
  "has_error (Success a) = False"
| "has_error (Failure k err ts) = True"

fun outcome_key :: "outcome \<Rightarrow> string" where
  "outcome_key (Success a) = persona_key a"
| "outcome_key (Failure k err ts) = k"

text \<open>The \<^verbatim>\<open>except\<close> branch of the loop body.\<close>

definition record_failure ::
  "env \<Rightarrow> string \<Rightarrow> error \<Rightarrow> outcome list \<Rightarrow> world \<Rightarrow> outcome list \<times> world" where
  "record_failure e key err results w =
     (let (t, w') = now e w in (results @ [Failure key err (strftime_compact t)], w'))"

text \<open>
  The loop of \<^verbatim>\<open>generate_all_personas\<close> over \<^verbatim>\<open>enumerate(self.consumer_personas.keys())\<close>:
  \<open>i\<close> is the index, \<open>n\<close> is \<^verbatim>\<open>len(self.consumer_personas)\<close>. The sleep is inside the
  \<^verbatim>\<open>try\<close>, after the append of the result.
\<close>

fun generate_loop ::
  "registry \<Rightarrow> env \<Rightarrow> string \<Rightarrow> int \<Rightarrow> nat \<Rightarrow> nat \<Rightarrow> string list \<Rightarrow> outcome list \<Rightarrow> world
     \<Rightarrow> outcome list \<times> world" where
  "generate_loop reg e sz delay n i [] results w = (results, w)"
| "generate_loop reg e sz delay n i (key # keys) results w =
     (case generate_consumer_image reg e key sz w of
        (Inr r, w1) \<Rightarrow>
          (let results1 = results @ [Success r] in
           if int i < int n - 1 then
             (case sleep delay w1 of
                Some w2 \<Rightarrow> generate_loop reg e sz delay n (Suc i) keys results1 w2
              | None \<Rightarrow>
                 (let (results2, w2) = record_failure e key SleepError results1 w1
                  in generate_loop reg e sz delay n (Suc i) keys results2 w2))
           else generate_loop reg e sz delay n (Suc i) keys results1 w1)
      | (Inl err, w1) \<Rightarrow>
          (let (results1, w2) = record_failure e key err results w1
           in generate_loop reg e sz delay n (Suc i) keys results1 w2))"

text \<open>The persona keys of the attempts in a trace, in order.\<close>

fun attempts :: "event list \<Rightarrow> string list" where
  "attempts [] = []"
| "attempts (Attempt k # evs) = k # attempts evs"
| "attempts (ev # evs) = attempts evs"

definition generate_all_personas ::
  "registry \<Rightarrow> env \<Rightarrow> string \<Rightarrow> int \<Rightarrow> world \<Rightarrow> outcome list \<times> world" where
  "generate_all_personas reg e sz delay w =
     generate_loop reg e sz delay (length reg) 0 (map fst reg) [] w"

text \<open>The dict \<^verbatim>\<open>save_generation_report\<close> dumps: its counts are computed from the
  registry and from the results handed in.\<close>

record generation_report =
  generation_timestamp :: datetime
  total_personas :: nat
  successful_generations :: nat
  failed_generations :: nat
  results :: "outcome list"





text \<open>
  Modelled from the spec: the repository has no function that reads a filename back (the
  patcher only globs by prefix). This parser follows the spec's format
  \<^verbatim>\<open>{persona_key}_{YYYYMMDD_HHMMSS}.{ext}\<close>: the extension is the last four characters,
  the timestamp the fifteen before it, the key everything before the separating underscore.
\<close>

definition is_digit :: "char \<Rightarrow> bool" where
  "is_digit c \<longleftrightarrow> c \<in> set ''0123456789''"

definition digit_val :: "char \<Rightarrow> nat" where
  "digit_val c = of_char c - 48"

definition read_nat :: "string \<Rightarrow> nat" where
  "read_nat s = foldl (\<lambda>a c. 10 * a + digit_val c) 0 s"

definition parse_timestamp :: "string \<Rightarrow> datetime option" where
  "parse_timestamp ts =
     (if length ts = 15 \<and> ts ! 8 = CHR ''_'' \<and> list_all is_digit (take 8 ts)
         \<and> list_all is_digit (drop 9 ts)
      then Some \<lparr>year = read_nat (take 4 ts), month = read_nat (take 2 (drop 4 ts)),
                 day = read_nat (take 2 (drop 6 ts)), hour = read_nat (take 2 (drop 9 ts)),
                 minute = read_nat (take 2 (drop 11 ts)), second = read_nat (drop 13 ts)\<rparr>
      else None)"

definition parse_filename :: "string \<Rightarrow> (string \<times> datetime) option" where
  "parse_filename f =
     (let n = length f in
      if n < 20 then None
      else if drop (n - 4) f \<noteq> ''.png'' \<and> drop (n - 4) f \<noteq> ''.jpg'' then None
      else if f ! (n - 20) \<noteq> CHR ''_'' then None
      else map_option (Pair (take (n - 20) f)) (parse_timestamp (take 15 (drop (n - 19) f))))"

subsection \<open>Concrete runs of the generator\<close>

definition clock0 :: datetime where
  "clock0 = \<lparr>year = 2024, month = 1, day = 15, hour = 10, minute = 30, second = 0\<rparr>"

definition world0 :: world where
  "world0 = \<lparr>files = Map.empty, dirs = [images_dir], trace = [], reads = 0\<rparr>"

text \<open>Every call succeeds and the download is an image.\<close>

definition env_ok :: env where
  "env_ok = \<lparr>images_generate = (\<lambda>i p s. Some ''https://example.com/test-image.png''),
             requests_get = (\<lambda>i u. Some ''PNGDATA''),
             write_fault = (\<lambda>i p. None),
             image_open = (\<lambda>c. if c = ''PNGDATA'' then Some (512, 512, ''PNG'') else None),
             wall_clock = (\<lambda>k. clock0)\<rparr>"

text \<open>The provider refuses the first request of the run (the trace holds one entry, the
  attempt itself, when it is made) and serves every later one.\<close>

definition env_first_fails :: env where
  "env_first_fails = env_ok\<lparr>images_generate :=
      (\<lambda>i p s. if i = 1 then None else Some ''https://example.com/test-image.png'')\<rparr>"

text \<open>The download succeeds but is not an image.\<close>

definition env_corrupt :: env where
  "env_corrupt = env_ok\<lparr>requests_get := (\<lambda>i u. Some ''<html>Service unavailable</html>'')\<rparr>"

text \<open>The disk takes three characters of an image file and then the write raises.\<close>

definition env_cut :: env where
  "env_cut = env_ok\<lparr>write_fault := (\<lambda>i p. Some (WriteFails 3))\<rparr>"

text \<open>The local clock is set back an hour after its first reading, as at the end of
  daylight saving time.\<close>

definition env_clock_back :: env where
  "env_clock_back = env_ok\<lparr>wall_clock :=
      (\<lambda>k. if k = 0
           then \<lparr>year = 2024, month = 11, day = 3, hour = 1, minute = 59, second = 59\<rparr>
           else \<lparr>year = 2024, month = 11, day = 3, hour = 1, minute = 0, second = 0\<rparr>)\<rparr>"

definition two_personas :: registry where
  "two_personas = take 2 consumer_personas"



section \<open>Strings as Python sees them\<close>

text \<open>
  \<^verbatim>\<open>str.isspace\<close> on the ASCII range, which is also what \<^verbatim>\<open>\s\<close> matches there: tab to
  carriage return, the four separators 28 to 31, and the space. Whitespace beyond ASCII is
  not modelled.
\<close>

definition is_space :: "char \<Rightarrow> bool" where
  "is_space c \<longleftrightarrow> (9 \<le> (of_char c :: nat) \<and> (of_char c :: nat) \<le> 13) \<or>
                  (28 \<le> (of_char c :: nat) \<and> (of_char c :: nat) \<le> 32)"

definition strip :: "string \<Rightarrow> string" where
  "strip s = rev (dropWhile is_space (rev (dropWhile is_space s)))"

text \<open>\<^verbatim>\<open>needle in haystack\<close> on strings.\<close>

fun contains :: "string \<Rightarrow> string \<Rightarrow> bool" where
  "contains needle [] = (needle = [])"
| "contains needle (c # cs) = (prefix needle (c # cs) \<or> contains needle cs)"

section \<open>Waitlist endpoint (app.py)\<close>

text \<open>
  What \<^verbatim>\<open>request.get_json()\<close> gives the handler: it raises (\<open>BadBody\<close>), returns a value
  that is not a dict (\<open>NotObject\<close>), or returns a dict. A value of the dict is a string
  or something else.
\<close>

datatype json = JString string | JOther

datatype payload = BadBody | NotObject | Object "string \<rightharpoonup> json"

record response =
  status :: nat
  success :: bool
  message :: string

definition WAITLIST_FILE :: path where
  "WAITLIST_FILE = [''waitlist.txt'']"

definition error_500 :: response where
  "error_500 = \<lparr>status = 500, success = False, message = ''An error occurred''\<rparr>"

definition thanks :: string where
  "thanks = ''Thanks for joining! We'' @ [CHR 0x27] @ ''ll notify you when ValueSnap launches.''"

text \<open>\<^verbatim>\<open>data.get('email', '').strip()\<close>: \<open>None\<close> when the value has no \<^verbatim>\<open>strip\<close>.\<close>

definition get_email :: "(string \<rightharpoonup> json) \<Rightarrow> string option" where
  "get_email d =
     (case d ''email'' of
        None \<Rightarrow> Some (strip '''')
      | Some (JString s) \<Rightarrow> Some (strip s)
      | Some JOther \<Rightarrow> None)"

text \<open>
  The \<^verbatim>\<open>with open(WAITLIST_FILE, 'a')\<close> block: the \<^verbatim>\<open>open\<close> creates a missing file, the
  clock is read inside the block, and the line is appended; a write that raises leaves the
  characters of the line that were written before the exception.
\<close>

definition append_line :: "env \<Rightarrow> string \<Rightarrow> world \<Rightarrow> bool \<times> world" where
  "append_line e email w =
     (case write_fault e (length (trace w)) WAITLIST_FILE of
        Some OpenFails \<Rightarrow> (False, w)
      | flt \<Rightarrow>
         (case now e w of (t, w1) \<Rightarrow>
            (let old = (case files w1 WAITLIST_FILE of None \<Rightarrow> [] | Some old \<Rightarrow> old);
                 line = strftime_line t @ '' | '' @ email @ [CHR 0x0A]
             in case flt of
                  Some (WriteFails n) \<Rightarrow>
                    (False, log_event (Partial WAITLIST_FILE)
                       (w1\<lparr>files := (files w1)(WAITLIST_FILE \<mapsto> old @ take n line)\<rparr>))
                | _ \<Rightarrow>
                    (True, log_event (Wrote WAITLIST_FILE)
                       (w1\<lparr>files := (files w1)(WAITLIST_FILE \<mapsto> old @ line)\<rparr>)))))"

definition join_waitlist :: "env \<Rightarrow> payload \<Rightarrow> world \<Rightarrow> response \<times> world" where
  "join_waitlist e body w =
     (case body of
        BadBody \<Rightarrow> (error_500, w)
      | NotObject \<Rightarrow> (error_500, w)
      | Object d \<Rightarrow>
         (case get_email d of
            None \<Rightarrow> (error_500, w)
          | Some email \<Rightarrow>
             if email = [] then
               (\<lparr>status = 400, success = False, message = ''Email is required''\<rparr>, w)
             else if CHR ''@'' \<notin> set email \<or> CHR ''.'' \<notin> set email then
               (\<lparr>status = 400, success = False, message = ''Invalid email address''\<rparr>, w)
             else
               (case append_line e email w of
                  (False, w') \<Rightarrow> (error_500, w')
                | (True, w') \<Rightarrow> (\<lparr>status = 200, success = True, message = thanks\<rparr>, w'))))"

section \<open>Site patcher (update_persona_images.py)\<close>

subsection \<open>Paths and the asset directory\<close>

text \<open>\<^verbatim>\<open>path.exists()\<close>: a file or a directory is there.\<close>

definition path_exists :: "world \<Rightarrow> path \<Rightarrow> bool" where
  "path_exists w p \<longleftrightarrow> files w p \<noteq> None \<or> p \<in> set (dirs w)"

text \<open>The components of a string handed to \<^verbatim>\<open>Path\<close>: empty components and single dots
  are dropped.\<close>

fun split_on :: "char \<Rightarrow> string \<Rightarrow> string \<Rightarrow> string list" where
  "split_on d cur [] = [cur]"
| "split_on d cur (c # cs) = (if c = d then cur # split_on d [] cs else split_on d (cur @ [c]) cs)"

definition components :: "string \<Rightarrow> string list" where
  "components s = filter (\<lambda>c. c \<noteq> [] \<and> c \<noteq> ''.'') (split_on (CHR ''/'') [] s)"

text \<open>\<^verbatim>\<open>root / s\<close>; an absolute path starts with the empty component, and an absolute
  \<open>s\<close> replaces the root.\<close>

definition path_join :: "path \<Rightarrow> string \<Rightarrow> path" where
  "path_join root s =
     (if s \<noteq> [] \<and> hd s = CHR ''/'' then [] # components s else root @ components s)"

text \<open>\<^verbatim>\<open>p.relative_to(base)\<close>: \<open>None\<close> is its \<^verbatim>\<open>ValueError\<close>.\<close>

definition relative_to :: "path \<Rightarrow> path \<Rightarrow> path option" where
  "relative_to p base = (if prefix base p then Some (drop (length base) p) else None)"

definition html_path :: "path \<Rightarrow> path" where
  "html_path project_root = project_root @ [''index.html'']"

datatype patch_error = ReadFailed | PathNotRelative | BackupFailed | WriteFailed

definition get_web_image_path :: "path \<Rightarrow> path \<Rightarrow> patch_error + string" where
  "get_web_image_path project_root image_path =
     (case relative_to image_path project_root of
        Some rel \<Rightarrow> Inr (map (\<lambda>c. if c = CHR 0x5C then CHR ''/'' else c) (str_path rel))
      | None \<Rightarrow>
         (case relative_to image_path (butlast (html_path project_root)) of
            Some rel \<Rightarrow> Inr (map (\<lambda>c. if c = CHR 0x5C then CHR ''/'' else c) (str_path rel))
          | None \<Rightarrow> Inl PathNotRelative))"

text \<open>
  A snapshot of the asset directory: the names in it with their modification times, in
  the order the directory scan yields them. \<^verbatim>\<open>glob(f'{key}_*.png')\<close> keeps the names
  that start with the key and an underscore and end with the extension.
\<close>

type_synonym listing = "(string \<times> int) list"

definition glob_match :: "string \<Rightarrow> string \<Rightarrow> string \<Rightarrow> bool" where
  "glob_match key ext fname \<longleftrightarrow>
     prefix (key @ ''_'') fname \<and> suffix ext fname \<and>
     length key + 1 + length ext \<le> length fname"

text \<open>\<^verbatim>\<open>max(matching_files, key=mtime)\<close> returns the first of the maximal entries.\<close>

definition get_latest_image :: "path \<Rightarrow> listing \<Rightarrow> string \<Rightarrow> path option" where
  "get_latest_image imgs ls key =
     (case filter (\<lambda>f. glob_match key ''.png'' (fst f)) ls @
           filter (\<lambda>f. glob_match key ''.jpg'' (fst f)) ls of
        [] \<Rightarrow> None
      | f # fs \<Rightarrow>
          Some (imgs @ [fst (foldl (\<lambda>best g. if snd best < snd g then g else best) f fs)]))"

subsection \<open>The parsed document\<close>

text \<open>
  The tree \<^verbatim>\<open>BeautifulSoup(html, 'html.parser')\<close> builds: text nodes and elements with
  their attributes and children. A multi-valued attribute such as \<^verbatim>\<open>class\<close> is kept as the
  string of the source. The parser and \<^verbatim>\<open>prettify\<close> belong to the library and are
  parameters.
\<close>

datatype node = Text string | Elem string "(string \<times> string) list" "node list"

record bs4 =
  parse :: "string \<Rightarrow> node list"
  prettify :: "node list \<Rightarrow> string"

definition soup :: "node list \<Rightarrow> node" where
  "soup cs = Elem ''[document]'' [] cs"

fun children_of :: "node \<Rightarrow> node list" where
  "children_of (Text s) = []"
| "children_of (Elem t a cs) = cs"

fun split_ws :: "string \<Rightarrow> string \<Rightarrow> string list" where
  "split_ws cur [] = (if cur = [] then [] else [cur])"
| "split_ws cur (c # cs) =
     (if is_space c then (if cur = [] then split_ws [] cs else cur # split_ws [] cs)
      else split_ws (cur @ [c]) cs)"

definition has_class :: "string \<Rightarrow> (string \<times> string) list \<Rightarrow> bool" where
  "has_class cls a =
     (case map_of a ''class'' of None \<Rightarrow> False | Some v \<Rightarrow> cls \<in> set (split_ws [] v))"

fun is_div_class :: "string \<Rightarrow> node \<Rightarrow> bool" where
  "is_div_class cls (Text s) = False"
| "is_div_class cls (Elem t a cs) = (t = ''div'' \<and> has_class cls a)"

fun has_tag :: "string \<Rightarrow> node \<Rightarrow> bool" where
  "has_tag tg (Text s) = False"
| "has_tag tg (Elem t a cs) = (t = tg)"

text \<open>\<^verbatim>\<open>tag.get(name, '')\<close>.\<close>

definition get_attr :: "(string \<times> string) list \<Rightarrow> string \<Rightarrow> string" where
  "get_attr a k = (case map_of a k of None \<Rightarrow> [] | Some v \<Rightarrow> v)"

text \<open>
  A node is named by the path of child indices that leads to it. \<open>find_all\<close> lists the
  paths of the descendants that satisfy the test, in document order; \<open>find_first\<close> is
  \<^verbatim>\<open>tag.find(...)\<close>.
\<close>

fun bump :: "nat list \<Rightarrow> nat list" where
  "bump [] = []"
| "bump (i # p) = Suc i # p"

fun find_all :: "(node \<Rightarrow> bool) \<Rightarrow> node \<Rightarrow> nat list list"
  and find_all_list :: "(node \<Rightarrow> bool) \<Rightarrow> node list \<Rightarrow> nat list list" where
  "find_all P (Text s) = []"
| "find_all P (Elem t a cs) = find_all_list P cs"
| "find_all_list P [] = []"
| "find_all_list P (c # cs) =
     (if P c then [[0]] else []) @ map ((#) 0) (find_all P c) @ map bump (find_all_list P cs)"

definition find_first :: "(node \<Rightarrow> bool) \<Rightarrow> node \<Rightarrow> nat list option" where
  "find_first P n = (case find_all P n of [] \<Rightarrow> None | p # ps \<Rightarrow> Some p)"

fun subtree :: "node \<Rightarrow> nat list \<Rightarrow> node option" where
  "subtree n [] = Some n"
| "subtree (Text s) (i # p) = None"
| "subtree (Elem t a cs) (i # p) = (if i < length cs then subtree (cs ! i) p else None)"

text \<open>\<^verbatim>\<open>tag.clear()\<close> followed by \<^verbatim>\<open>tag.append(...)\<close> on the element at a path.\<close>

fun replace_children :: "node \<Rightarrow> nat list \<Rightarrow> node list \<Rightarrow> node" where
  "replace_children (Text s) p new = Text s"
| "replace_children (Elem t a cs) [] new = Elem t a new"
| "replace_children (Elem t a cs) (i # p) new =
     (if i < length cs then Elem t a (cs[i := replace_children (cs ! i) p new])
      else Elem t a cs)"

text \<open>\<^verbatim>\<open>get_text(strip=True)\<close>: the text nodes below, each stripped, the empty ones dropped.\<close>

fun all_strings :: "node \<Rightarrow> string list"
  and all_strings_list :: "node list \<Rightarrow> string list" where
  "all_strings (Text s) = [s]"
| "all_strings (Elem t a cs) = all_strings_list cs"
| "all_strings_list [] = []"
| "all_strings_list (c # cs) = all_strings c @ all_strings_list cs"

definition get_text_strip :: "node \<Rightarrow> string" where
  "get_text_strip n = concat (filter (\<lambda>s. s \<noteq> []) (map strip (all_strings n)))"

subsection \<open>Patching the persona cards\<close>

text \<open>\<^verbatim>\<open>PERSONA_MAPPING\<close>: key, \<^verbatim>\<open>html_name\<close>, \<^verbatim>\<open>description\<close>, in dict order.\<close>

definition PERSONA_MAPPING :: "(string \<times> string \<times> string) list" where
  "PERSONA_MAPPING =
     [(''estate_inheritor'', ''Emeka'', ''Estate Manager''),
      (''reseller_entrepreneur'', ''Jake'', ''Reseller'')]"

definition match_persona :: "string \<Rightarrow> (string \<times> string \<times> string) option" where
  "match_persona name_text =
     List.find (\<lambda>m. contains (fst (snd m)) name_text) PERSONA_MAPPING"

definition new_img :: "string \<Rightarrow> string \<Rightarrow> node" where
  "new_img web_path alt_text =
     Elem ''img'' [(''src'', web_path), (''alt'', alt_text), (''class'', ''persona-image'')] []"

record update_results =
  updated_personas :: "(string \<times> string \<times> string) list"
  missing_images :: "string list"
  errors :: "string list"

text \<open>
  What one pass of the loop body decides for a card, in the order of the source: no
  \<^verbatim>\<open>h3\<close> or no matching persona (\<open>Skip\<close>), no image (\<open>Missing\<close>), no avatar
  (\<open>NoAvatar\<close>), the \<^verbatim>\<open>ValueError\<close> of \<^verbatim>\<open>get_web_image_path\<close> inside \<^verbatim>\<open>create_image_tag\<close>
  (\<open>Raise\<close>), the printed preview of a dry run, or the replacement of the avatar's
  content at a path below the card.
\<close>

datatype action =
    Skip
  | Missing string
  | NoAvatar string
  | Raise patch_error
  | Preview
  | Replace "nat list" node "string \<times> string \<times> string"

definition bind_card :: "path \<Rightarrow> path \<Rightarrow> listing \<Rightarrow> bool \<Rightarrow> node \<Rightarrow> action" where
  "bind_card project_root imgs ls dry_run card_elem =
     (case find_first (has_tag ''h3'') card_elem of
        None \<Rightarrow> Skip
      | Some h \<Rightarrow>
         (case subtree card_elem h of
            None \<Rightarrow> Skip
          | Some name_elem \<Rightarrow>
             (case match_persona (get_text_strip name_elem) of
                None \<Rightarrow> Skip
              | Some (key, html_name, descr) \<Rightarrow>
                 (case get_latest_image imgs ls key of
                    None \<Rightarrow> Missing key
                  | Some image_path \<Rightarrow>
                     (case find_first (is_div_class ''persona-avatar'') card_elem of
                        None \<Rightarrow> NoAvatar key
                      | Some q \<Rightarrow>
                         (case get_web_image_path project_root image_path of
                            Inl err \<Rightarrow> Raise err
                          | Inr web \<Rightarrow>
                             if dry_run then Preview
                             else Replace q (new_img web (html_name @ '' - '' @ descr))
                                    (key, html_name, last image_path)))))))"

text \<open>
  The cards found by \<^verbatim>\<open>find_all\<close> are references into the tree. The model keeps a list of
  roots: the first is the document; clearing an avatar moves its former children, which
  the pending references may still point into, under a new root.
\<close>

definition readdress :: "nat \<Rightarrow> nat list \<Rightarrow> nat \<Rightarrow> nat \<times> nat list \<Rightarrow> nat \<times> nat list" where
  "readdress k a m c =
     (if fst c = k \<and> strict_prefix a (snd c) then (m, drop (length a) (snd c)) else c)"

definition node_at :: "node list \<Rightarrow> nat \<times> nat list \<Rightarrow> node option" where
  "node_at roots c = (if fst c < length roots then subtree (roots ! fst c) (snd c) else None)"

function update_cards ::
  "path \<Rightarrow> path \<Rightarrow> listing \<Rightarrow> bool \<Rightarrow> (nat \<times> nat list) list \<Rightarrow> node list \<Rightarrow> update_results
     \<Rightarrow> patch_error + node list \<times> update_results" where
  "update_cards project_root imgs ls dry_run [] roots res = Inr (roots, res)"
| "update_cards project_root imgs ls dry_run (c # cards) roots res =
     (case node_at roots c of
        None \<Rightarrow> update_cards project_root imgs ls dry_run cards roots res
      | Some card_elem \<Rightarrow>
         (case bind_card project_root imgs ls dry_run card_elem of
            Skip \<Rightarrow> update_cards project_root imgs ls dry_run cards roots res
          | Missing key \<Rightarrow>
              update_cards project_root imgs ls dry_run cards roots
                (res\<lparr>missing_images := missing_images res @ [key]\<rparr>)
          | NoAvatar key \<Rightarrow>
              update_cards project_root imgs ls dry_run cards roots
                (res\<lparr>errors := errors res @ [''No avatar element found for '' @ key]\<rparr>)
          | Raise err \<Rightarrow> Inl err
          | Preview \<Rightarrow> update_cards project_root imgs ls dry_run cards roots res
          | Replace q img entry \<Rightarrow>
              update_cards project_root imgs ls dry_run
                (map (readdress (fst c) (snd c @ q) (length roots)) cards)
                (roots[fst c := replace_children (roots ! fst c) (snd c @ q) [img]] @
                   [Elem ''[detached]'' []
                      (case subtree card_elem q of None \<Rightarrow> [] | Some av \<Rightarrow> children_of av)])
                (res\<lparr>updated_personas := updated_personas res @ [entry]\<rparr>)))"
  by pat_completeness auto
termination
  by (relation "measure (\<lambda>(project_root, imgs, ls, dry_run, cards, roots, res). length cards)") auto

text \<open>
  \<^verbatim>\<open>create_backup\<close>: \<^verbatim>\<open>shutil.copy2\<close> opens the backup file and fills it from the document;
  a copy that raises leaves the part of the backup that was written. \<open>None\<close> is the
  exception.
\<close>

definition backup_path :: "path \<Rightarrow> string \<Rightarrow> path" where
  "backup_path project_root ts = project_root @ [''index.backup_'' @ ts @ ''.html'']"

definition create_backup :: "env \<Rightarrow> path \<Rightarrow> world \<Rightarrow> path option \<times> world" where
  "create_backup e project_root w =
     (case now e w of (t, w1) \<Rightarrow>
        (let bp = backup_path project_root (strftime_compact t) in
         case write_fault e (length (trace w1)) bp of
           None \<Rightarrow>
             (Some bp, log_event (Copied (html_path project_root) bp)
                         (w1\<lparr>files := (files w1)(bp := files w1 (html_path project_root))\<rparr>))
         | Some OpenFails \<Rightarrow> (None, w1)
         | Some (WriteFails n) \<Rightarrow>
             (None, log_event (Partial bp)
                      (w1\<lparr>files := (files w1)(bp :=
                          map_option (take n) (files w1 (html_path project_root)))\<rparr>))))"

definition no_results :: update_results where
  "no_results = \<lparr>updated_personas = [], missing_images = [], errors = []\<rparr>"

text \<open>
  The part of \<^verbatim>\<open>update_html_with_images\<close> between the read and the write: the text is
  parsed, the cards are found and the loop runs over them. \<open>patched_document\<close> is the
  content of \<^verbatim>\<open>soup\<close> after the loop of a run that is not a dry run.
\<close>

definition patch_cards ::
  "bs4 \<Rightarrow> path \<Rightarrow> path \<Rightarrow> listing \<Rightarrow> bool \<Rightarrow> string
     \<Rightarrow> patch_error + node list \<times> update_results" where
  "patch_cards lib project_root imgs ls dry_run html_content =
     update_cards project_root imgs ls dry_run
       (map (Pair 0) (find_all (is_div_class ''persona-card'') (soup (parse lib html_content))))
       [soup (parse lib html_content)] no_results"


definition update_html_with_images ::
  "bs4 \<Rightarrow> env \<Rightarrow> path \<Rightarrow> path \<Rightarrow> listing \<Rightarrow> bool \<Rightarrow> world
     \<Rightarrow> (patch_error + update_results) \<times> world" where
  "update_html_with_images lib e project_root imgs ls dry_run w =
     (if \<not> path_exists w (html_path project_root) then
        (Inr (no_results\<lparr>errors :=
           [''HTML file not found: '' @ str_path (html_path project_root)]\<rparr>), w)
      else
        (case files w (html_path project_root) of
           None \<Rightarrow> (Inl ReadFailed, w)
         | Some html_content \<Rightarrow>
            (case patch_cards lib project_root imgs ls dry_run html_content of
               Inl err \<Rightarrow> (Inl err, w)
             | Inr (roots, res) \<Rightarrow>
                if \<not> dry_run \<and> updated_personas res \<noteq> [] then
                  (case create_backup e project_root w of
                     (None, w1) \<Rightarrow> (Inl BackupFailed, w1)
                   | (Some bp, w1) \<Rightarrow>
                      (case write_file e (html_path project_root)
                              (prettify lib (children_of (hd roots))) w1 of
                         (False, w2) \<Rightarrow> (Inl WriteFailed, w2)
                       | (True, w2) \<Rightarrow> (Inr res, w2)))
                else (Inr res, w))))"

subsection \<open>The style rule\<close>

definition persona_image_css :: string where
  "persona_image_css =
     [CHR 0x0A] @ ''        .persona-image {'' @
     [CHR 0x0A] @ ''            width: 100%;'' @
     [CHR 0x0A] @ ''            height: 100%;'' @
     [CHR 0x0A] @ ''            object-fit: cover;'' @
     [CHR 0x0A] @ ''            border-radius: 50%;'' @
     [CHR 0x0A] @ ''        }'' @
     [CHR 0x0A] @ ''        ''"

text \<open>
  The pattern \<^verbatim>\<open>\.persona-avatar\s*{[^}]*}\<close> matched at the head of a string: the length
  of the match. \<open>re_search\<close> is \<^verbatim>\<open>re.search(...)\<close> and returns \<^verbatim>\<open>match.end()\<close> of the
  leftmost match.
\<close>

definition avatar_rule_at :: "string \<Rightarrow> nat option" where
  "avatar_rule_at s =
     (if prefix ''.persona-avatar'' s then
        (case dropWhile is_space (drop 15 s) of
           [] \<Rightarrow> None
         | c # r \<Rightarrow>
            if c = CHR ''{'' \<and> CHR ''}'' \<in> set r then
              Some (15 + length (takeWhile is_space (drop 15 s)) + 1 +
                    length (takeWhile (\<lambda>x. x \<noteq> CHR ''}'') r) + 1)
            else None)
      else None)"

fun re_search :: "nat \<Rightarrow> string \<Rightarrow> nat option" where
  "re_search i [] = None"
| "re_search i (c # cs) =
     (case avatar_rule_at (c # cs) of
        Some n \<Rightarrow> Some (i + n)
      | None \<Rightarrow> re_search (Suc i) cs)"

definition add_persona_image_css ::
  "env \<Rightarrow> path \<Rightarrow> bool \<Rightarrow> world \<Rightarrow> (patch_error + bool) \<times> world" where
  "add_persona_image_css e project_root dry_run w =
     (if \<not> path_exists w (html_path project_root) then (Inr False, w)
      else
        (case files w (html_path project_root) of
           None \<Rightarrow> (Inl ReadFailed, w)
         | Some html_content \<Rightarrow>
            if contains ''.persona-image'' html_content then (Inr True, w)
            else
              (case re_search 0 html_content of
                 None \<Rightarrow> (Inr False, w)
               | Some insert_position \<Rightarrow>
                  if dry_run then (Inr True, w)
                  else
                    (case write_file e (html_path project_root)
                            (take insert_position html_content @ persona_image_css @
                             drop insert_position html_content) w of
                       (False, w') \<Rightarrow> (Inl WriteFailed, w')
                     | (True, w') \<Rightarrow> (Inr True, w')))))"

subsection \<open>Validation\<close>

record validation =
  valid :: bool
  issues :: "string list"
  images_found :: "(string \<times> string) list"

text \<open>The body of the loop over the avatar elements.\<close>

definition validate_avatar :: "path \<Rightarrow> world \<Rightarrow> node \<Rightarrow> validation \<Rightarrow> validation" where
  "validate_avatar project_root w avatar v =
     (case find_first (has_tag ''img'') avatar of
        None \<Rightarrow> v
      | Some i \<Rightarrow>
         (case subtree avatar i of
            Some (Elem t a cs) \<Rightarrow>
              (let src = get_attr a ''src'';
                   alt = get_attr a ''alt'';
                   v1 = v\<lparr>images_found := images_found v @ [(src, alt)]\<rparr>;
                   v2 = (if \<not> path_exists w (path_join project_root src)
                         then v1\<lparr>valid := False,
                                 issues := issues v1 @ [''Image file not found: '' @ src]\<rparr>
                         else v1)
               in if alt = []
                  then v2\<lparr>issues := issues v2 @ [''Missing alt text for image: '' @ src]\<rparr>
                  else v2)
          | _ \<Rightarrow> v))"

definition validate_updates :: "bs4 \<Rightarrow> path \<Rightarrow> world \<Rightarrow> patch_error + validation" where
  "validate_updates lib project_root w =
     (if \<not> path_exists w (html_path project_root) then
        Inr \<lparr>valid = False, issues = [''HTML file not found''], images_found = []\<rparr>
      else
        (case files w (html_path project_root) of
           None \<Rightarrow> Inl ReadFailed
         | Some html_content \<Rightarrow>
            (let doc = soup (parse lib html_content);
                 v = foldl (\<lambda>v p. case subtree doc p of
                                      None \<Rightarrow> v
                                    | Some avatar \<Rightarrow> validate_avatar project_root w avatar v)
                       \<lparr>valid = True, issues = [], images_found = []\<rparr>
                       (find_all (is_div_class ''persona-avatar'') doc)
             in if images_found v = []
                then Inr (v\<lparr>valid := False,
                            issues := issues v @ [''No persona images found in HTML'']\<rparr>)
                else Inr v)))"

subsection \<open>Reading and replacing below a list of children\<close>

text \<open>The same two operations on the children of an element; the proofs about the tree go
  through them.\<close>

definition subtree_list :: "node list \<Rightarrow> nat list \<Rightarrow> node option" where
  "subtree_list cs p =
     (case p of [] \<Rightarrow> None | i # r \<Rightarrow> if i < length cs then subtree (cs ! i) r else None)"

definition replace_list :: "node list \<Rightarrow> nat list \<Rightarrow> node list \<Rightarrow> node list" where
  "replace_list cs p new =
     (case p of
        [] \<Rightarrow> cs
      | i # r \<Rightarrow> if i < length cs then cs[i := replace_children (cs ! i) r new] else cs)"

text \<open>A test that looks at the tag and the attributes of a node only.\<close>

definition shallow :: "(node \<Rightarrow> bool) \<Rightarrow> bool" where
  "shallow P \<longleftrightarrow> (\<forall>t a cs cs'. P (Elem t a cs) = P (Elem t a cs'))"

subsection \<open>The shape of a document the patcher expects\<close>



text \<open>A card is settled when the patch would put into its avatar exactly what the avatar
  already holds.\<close>

definition settled_card :: "path \<Rightarrow> path \<Rightarrow> listing \<Rightarrow> node \<Rightarrow> bool" where
  "settled_card project_root imgs ls c \<longleftrightarrow>
     (case bind_card project_root imgs ls False c of
        Replace q img entry \<Rightarrow>
          (case subtree c q of None \<Rightarrow> False | Some av \<Rightarrow> children_of av = [img])
      | _ \<Rightarrow> True)"

definition settled :: "path \<Rightarrow> path \<Rightarrow> listing \<Rightarrow> node \<Rightarrow> bool" where
  "settled project_root imgs ls doc \<longleftrightarrow>
     list_all (\<lambda>p. case subtree doc p of None \<Rightarrow> True
                   | Some c \<Rightarrow> settled_card project_root imgs ls c)
       (find_all (is_div_class ''persona-card'') doc)"

subsection \<open>Trees up to whitespace\<close>

text \<open>
  \<^verbatim>\<open>prettify\<close> puts every tag and every text on a line of its own, and the parser turns
  the line breaks and the indentation into text: a tree that was written and read back
  has blank text nodes between its elements and padding around its texts. \<open>norm\<close> strips
  every text node and drops the ones that are blank.
\<close>

fun is_blank :: "node \<Rightarrow> bool" where
  "is_blank (Text s) = (strip s = [])"
| "is_blank (Elem t a cs) = False"

fun norm :: "node \<Rightarrow> node"
  and norm_list :: "node list \<Rightarrow> node list" where
  "norm (Text s) = Text (strip s)"
| "norm (Elem t a cs) = Elem t a (norm_list cs)"
| "norm_list [] = []"
| "norm_list (c # cs) = (if is_blank c then norm_list cs else norm c # norm_list cs)"




subsection \<open>Concrete sites\<close>

text \<open>A project at \<^verbatim>\<open>/site\<close> with the script directory below it, as the constructor of
  \<^verbatim>\<open>PersonaImageUpdater\<close> lays them out, and a directory snapshot with one image for
  each of the two mapped personas.\<close>

definition site_root :: path where
  "site_root = [[], ''site'']"

definition site_images :: path where
  "site_images = site_root @ [''ai_image_generation'', ''generated_images'']"

definition site_listing :: listing where
  "site_listing =
     [(''estate_inheritor_20240115_103000.png'', 100),
      (''reseller_entrepreneur_20240115_103002.png'', 102)]"

definition site_world :: "string \<Rightarrow> world" where
  "site_world html =
     \<lparr>files = [html_path site_root \<mapsto> html], dirs = [site_root], trace = [], reads = 0\<rparr>"

definition nl :: string where
  "nl = [CHR 0x0A]"

text \<open>A document whose only occurrence of \<^verbatim>\<open>.persona-image\<close> is inside the class attribute
  of an image; its style section has the avatar rule alone.\<close>

definition css_pre :: string where
  \<open>css_pre = ''<style>.persona-avatar { width: 80px; }</style><div class="persona-avatar"><img class="round ''\<close>

definition css_post :: string where
  \<open>css_post = ''" src="a.png"/></div>''\<close>


text \<open>
  The two image tags the patch writes for the listing above, as trees and as
  \<^verbatim>\<open>prettify\<close> prints them: \<^verbatim>\<open>new_tag\<close> keeps the attributes in the order \<^verbatim>\<open>src\<close>, \<^verbatim>\<open>alt\<close>,
  \<^verbatim>\<open>class\<close>.
\<close>

definition emeka_img :: node where
  "emeka_img = new_img ''ai_image_generation/generated_images/estate_inheritor_20240115_103000.png''
     ''Emeka - Estate Manager''"

definition jake_img :: node where
  "jake_img = new_img ''ai_image_generation/generated_images/reseller_entrepreneur_20240115_103002.png''
     ''Jake - Reseller''"

definition emeka_tag :: string where
  \<open>emeka_tag = ''<img src="ai_image_generation/generated_images/estate_inheritor_20240115_103000.png" alt="Emeka - Estate Manager" class="persona-image"/>''\<close>

definition jake_tag :: string where
  \<open>jake_tag = ''<img src="ai_image_generation/generated_images/reseller_entrepreneur_20240115_103002.png" alt="Jake - Reseller" class="persona-image"/>''\<close>

text \<open>
  A card of the expected shape (card, header, avatar beside the name) for each of the two
  mapped personas. \<open>plain_html\<close> is the source and \<open>plain_dom\<close> the tree the parser builds
  for it; \<open>plain_patched_dom\<close> is the tree after the patch and \<open>plain_patched_html\<close> the
  text \<^verbatim>\<open>prettify\<close> writes for it, one tag or text per line, indented by one space per
  level; \<open>plain_reparsed\<close> is the tree the parser builds from that text, with the line
  breaks and the indentation as text nodes.
\<close>

definition plain_html :: string where
  \<open>plain_html = ''<div class="persona-card"><div class="persona-header"><div class="persona-avatar">E</div><h3>Emeka, 37</h3></div></div><div class="persona-card"><div class="persona-header"><div class="persona-avatar">J</div><h3>Jake, 28</h3></div></div>''\<close>

definition plain_card :: "node list \<Rightarrow> string \<Rightarrow> node" where
  "plain_card avatar_content name_text =
     Elem ''div'' [(''class'', ''persona-card'')]
       [Elem ''div'' [(''class'', ''persona-header'')]
          [Elem ''div'' [(''class'', ''persona-avatar'')] avatar_content,
           Elem ''h3'' [] [Text name_text]]]"

definition plain_dom :: "node list" where
  "plain_dom = [plain_card [Text ''E''] ''Emeka, 37'', plain_card [Text ''J''] ''Jake, 28'']"

definition plain_patched_dom :: "node list" where
  "plain_patched_dom = [plain_card [emeka_img] ''Emeka, 37'', plain_card [jake_img] ''Jake, 28'']"

definition pretty_plain_card :: "string \<Rightarrow> string \<Rightarrow> string" where
  \<open>pretty_plain_card img_line name_text =
     ''<div class="persona-card">'' @ nl @
     '' <div class="persona-header">'' @ nl @
     ''  <div class="persona-avatar">'' @ nl @
     ''   '' @ img_line @ nl @
     ''  </div>'' @ nl @
     ''  <h3>'' @ nl @
     ''   '' @ name_text @ nl @
     ''  </h3>'' @ nl @
     '' </div>'' @ nl @
     ''</div>'' @ nl\<close>

definition plain_patched_html :: string where
  "plain_patched_html =
     pretty_plain_card emeka_tag ''Emeka, 37'' @ pretty_plain_card jake_tag ''Jake, 28''"

definition reparsed_plain_card :: "node list \<Rightarrow> string \<Rightarrow> node" where
  "reparsed_plain_card avatar_content name_text =
     Elem ''div'' [(''class'', ''persona-card'')]
       [Text (nl @ '' ''),
        Elem ''div'' [(''class'', ''persona-header'')]
          [Text (nl @ ''  ''),
           Elem ''div'' [(''class'', ''persona-avatar'')] avatar_content,
           Text (nl @ ''  ''),
           Elem ''h3'' [] [Text (nl @ ''   '' @ name_text @ nl @ ''  '')],
           Text (nl @ '' '')],
        Text nl]"

definition plain_reparsed :: "node list" where
  "plain_reparsed =
     [reparsed_plain_card [Text (nl @ ''   ''), emeka_img, Text (nl @ ''  '')] ''Emeka, 37'',
      Text nl,
      reparsed_plain_card [Text (nl @ ''   ''), jake_img, Text (nl @ ''  '')] ''Jake, 28'',
      Text nl]"

text \<open>A stand-in for the library on these documents; its \<^verbatim>\<open>prettify\<close> looks at the tree
  up to whitespace.\<close>

definition plain_lib :: bs4 where
  "plain_lib =
     \<lparr>parse = (\<lambda>s. if s = plain_html then plain_dom
                   else if s = plain_patched_html then plain_reparsed else []),
      prettify = (\<lambda>d. if norm_list d = plain_patched_dom then plain_patched_html else [])\<rparr>"





















text \<open>An avatar whose image exists on disk and has an empty description.\<close>

definition no_alt_html :: string where
  \<open>no_alt_html = ''<div class="persona-avatar"><img src="a.png" alt=""/></div>''\<close>

definition no_alt_lib :: bs4 where
  "no_alt_lib =
     \<lparr>parse = (\<lambda>s. if s = no_alt_html
                   then [Elem ''div'' [(''class'', ''persona-avatar'')]
                           [Elem ''img'' [(''src'', ''a.png''), (''alt'', [])] []]]
                   else []),
      prettify = (\<lambda>d. [])\<rparr>"

definition no_alt_world :: world where
  "no_alt_world =
     \<lparr>files = [html_path site_root \<mapsto> no_alt_html, site_root @ [''a.png''] \<mapsto> ''PNGDATA''],
      dirs = [site_root], trace = [], reads = 0\<rparr>"

text \<open>The worlds after the first patch run of the three sites, with the clock of \<open>env_ok\<close>.\<close>

definition plain_world_once :: world where
  "plain_world_once =
    \<lparr>files = [backup_path site_root ''20240115_103000'' \<mapsto> plain_html,
              html_path site_root \<mapsto> plain_patched_html],
     dirs = [site_root],
     trace = [Copied (html_path site_root) (backup_path site_root ''20240115_103000''),
              Wrote (html_path site_root)],
     reads = 1\<rparr>"



section \<open>Properties of the asset generator\<close>

lemma generate_consumer_image_key:
  "generate_consumer_image reg e key sz w = (Inr r, w') \<Longrightarrow> persona_key r = key"
  by (auto simp: generate_consumer_image_def Let_def split: option.splits prod.splits bool.splits)

lemma sleep_nonneg: "0 \<le> delay \<Longrightarrow> sleep delay w = Some (log_event (Sleep delay) w)"
  by (simp add: sleep_def)

lemma generate_loop_keys:
  "0 \<le> delay \<Longrightarrow> generate_loop reg e sz delay n i keys acc w = (rs, w')
     \<Longrightarrow> map outcome_key rs = map outcome_key acc @ keys"
proof (induction keys arbitrary: i acc w)
  case Nil
  then show ?case by simp
next
  case (Cons key keys)
  obtain res w1 where g: "generate_consumer_image reg e key sz w = (res, w1)"
    by (cases "generate_consumer_image reg e key sz w")
  show ?case
  proof (cases res)
    case (Inl err)
    obtain acc1 w2 where rf: "record_failure e key err acc w1 = (acc1, w2)"
      by (cases "record_failure e key err acc w1")
    then have r1: "acc1 = acc @ [Failure key err (strftime_compact (fst (now e w1)))]"
      by (auto simp: record_failure_def split: prod.splits)
    from Cons.prems g Inl rf
    have "generate_loop reg e sz delay n (Suc i) keys acc1 w2 = (rs, w')" by simp
    from Cons.IH [OF Cons.prems(1) this] r1 show ?thesis by simp
  next
    case (Inr r)
    then have k: "persona_key r = key" using g generate_consumer_image_key by blast
    show ?thesis
    proof (cases "int i < int n - 1")
      case True
      with Cons.prems g Inr
      have "generate_loop reg e sz delay n (Suc i) keys (acc @ [Success r])
              (log_event (Sleep delay) w1) = (rs, w')"
        by (simp add: sleep_nonneg)
      from Cons.IH [OF Cons.prems(1) this] k show ?thesis by simp
    next
      case False
      with Cons.prems g Inr
      have "generate_loop reg e sz delay n (Suc i) keys (acc @ [Success r]) w1 = (rs, w')"
        by simp
      from Cons.IH [OF Cons.prems(1) this] k show ?thesis by simp
    qed
  qed
qed

lemmas gen_defs = generate_all_personas_def generate_consumer_image_def consumer_personas_def
  two_personas_def env_ok_def env_first_fails_def env_corrupt_def env_cut_def world0_def clock0_def now_def
  log_event_def write_file_def sleep_def record_failure_def strftime_compact_def pad2_def
  pad4_def digit_char_def make_filename_def images_dir_def Let_def

lemma attempts_append: "attempts (xs @ ys) = attempts xs @ attempts ys"
  by (induction xs rule: attempts.induct) auto

lemma generate_consumer_image_trace:
  "generate_consumer_image reg e key sz w = (r, w') \<Longrightarrow>
     \<exists>evs. trace w' = trace w @ Attempt key # evs \<and> attempts evs = []"
  by (auto simp: generate_consumer_image_def Let_def now_def log_event_def write_file_def
      split: option.splits prod.splits fault.splits if_splits bool.splits)

lemma record_failure_trace:
  "record_failure e key err acc w = (acc1, w1) \<Longrightarrow> trace w1 = trace w"
  by (auto simp: record_failure_def now_def split: prod.splits)

lemma generate_loop_attempts:
  "0 \<le> delay \<Longrightarrow> generate_loop reg e sz delay n i keys acc w = (rs, w')
     \<Longrightarrow> \<exists>evs. trace w' = trace w @ evs \<and> attempts evs = keys"
proof (induction keys arbitrary: i acc w)
  case Nil
  then show ?case by simp
next
  case (Cons key keys)
  obtain res w1 where g: "generate_consumer_image reg e key sz w = (res, w1)"
    by (cases "generate_consumer_image reg e key sz w")
  from generate_consumer_image_trace [OF g] obtain evs1
    where t1: "trace w1 = trace w @ Attempt key # evs1" and a1: "attempts evs1 = []" by blast
  show ?case
  proof (cases res)
    case (Inl err)
    obtain acc1 w2 where rf: "record_failure e key err acc w1 = (acc1, w2)"
      by (cases "record_failure e key err acc w1")
    from Cons.prems g Inl rf
    have "generate_loop reg e sz delay n (Suc i) keys acc1 w2 = (rs, w')" by simp
    from Cons.IH [OF Cons.prems(1) this] obtain evs
      where "trace w' = trace w2 @ evs" and "attempts evs = keys" by blast
    with t1 a1 record_failure_trace [OF rf]
    have "trace w' = trace w @ (Attempt key # evs1 @ evs) \<and>
          attempts (Attempt key # evs1 @ evs) = key # keys"
      by (simp add: attempts_append)
    then show ?thesis by blast
  next
    case (Inr r)
    show ?thesis
    proof (cases "int i < int n - 1")
      case True
      with Cons.prems g Inr
      have "generate_loop reg e sz delay n (Suc i) keys (acc @ [Success r])
              (log_event (Sleep delay) w1) = (rs, w')"
        by (simp add: sleep_nonneg)
      from Cons.IH [OF Cons.prems(1) this] obtain evs
        where "trace w' = trace (log_event (Sleep delay) w1) @ evs" and "attempts evs = keys"
        by blast
      with t1 a1
      have "trace w' = trace w @ (Attempt key # evs1 @ Sleep delay # evs) \<and>
            attempts (Attempt key # evs1 @ Sleep delay # evs) = key # keys"
        by (simp add: attempts_append log_event_def)
      then show ?thesis by blast
    next
      case False
      with Cons.prems g Inr
      have "generate_loop reg e sz delay n (Suc i) keys (acc @ [Success r]) w1 = (rs, w')"
        by simp
      from Cons.IH [OF Cons.prems(1) this] obtain evs
        where "trace w' = trace w1 @ evs" and "attempts evs = keys" by blast
      with t1 a1
      have "trace w' = trace w @ (Attempt key # evs1 @ evs) \<and>
            attempts (Attempt key # evs1 @ evs) = key # keys"
        by (simp add: attempts_append)
      then show ?thesis by blast
    qed
  qed
qed

text \<open>
  With a delay that \<^verbatim>\<open>time.sleep\<close> accepts, \<^verbatim>\<open>generate_all_personas\<close> attempts every
  persona of the registry once, in registry order, whatever attempts fail, and returns
  exactly one outcome per persona in that order, a result or an error record.
\<close>

lemma generate_all_personas_attempts_every_persona:
  assumes "0 \<le> delay"
    and "generate_all_personas reg e sz delay w = (rs, w')"
  shows "attempts (drop (length (trace w)) (trace w')) = map fst reg \<and>
         map outcome_key rs = map fst reg \<and> length rs = length reg"
proof -
  from assms have keys: "map outcome_key rs = map fst reg"
    unfolding generate_all_personas_def by (drule_tac generate_loop_keys) auto
  have "length rs = length (map outcome_key rs)" by simp
  also have "\<dots> = length reg" by (simp only: keys length_map)
  finally have len: "length rs = length reg" .
  from assms obtain evs where "trace w' = trace w @ evs" and "attempts evs = map fst reg"
    unfolding generate_all_personas_def by (drule_tac generate_loop_attempts) auto
  then show ?thesis using keys len by simp
qed


text \<open>
  C3 (the code departs from it). The first of two attempts fails: the trace of the batch
  holds both attempts and no sleep between them, because the sleep is reached only after a
  successful generation.
\<close>

theorem generate_all_personas_no_sleep_after_failure:
  "trace (snd (generate_all_personas two_personas env_first_fails ''512x512'' 2 world0)) =
     [Attempt ''estate_inheritor'', Attempt ''reseller_entrepreneur'',
      Wrote [''generated_images'', ''reseller_entrepreneur_20240115_103000.png'']] \<and>
   map has_error (fst (generate_all_personas two_personas env_first_fails ''512x512'' 2 world0)) =
     [True, False]"
  by (simp add: gen_defs)

text \<open>
  For comparison, when the first attempt succeeds the delay is slept before the second
  attempt and not after the last one.
\<close>

lemma generate_all_personas_sleep_after_success:
  "trace (snd (generate_all_personas two_personas env_ok ''512x512'' 2 world0)) =
     [Attempt ''estate_inheritor'',
      Wrote [''generated_images'', ''estate_inheritor_20240115_103000.png''],
      Sleep 2,
      Attempt ''reseller_entrepreneur'',
      Wrote [''generated_images'', ''reseller_entrepreneur_20240115_103000.png'']]"
  by (simp add: gen_defs)





section \<open>Properties of a single generation\<close>

text \<open>
  C2 (as amended). \<^verbatim>\<open>generate_consumer_image\<close> either returns a result or raises. The
  file of a result is on disk, holds the bytes downloaded from the address the provider
  gave, and decodes, with the size and format read from the decoded file. When the
  verification of the written file fails, the downloaded bytes stay on disk under the
  image's filename. When writing the file fails, the files are as before (the \<^verbatim>\<open>open\<close>
  raised) or the file holds the leading part of the downloaded bytes that was written.
  On every other failure the files are untouched.
\<close>

theorem generate_consumer_image_outcomes:
  assumes "generate_consumer_image reg e key sz w = (r, w')"
  shows "(\<forall>a. r = Inr a \<longrightarrow>
            (\<exists>p content wd ht fmt. map_of reg key = Some p \<and>
               images_generate e (Suc (length (trace w))) (prompt p) sz = Some (image_url a) \<and>
               requests_get e (Suc (length (trace w))) (image_url a) = Some content \<and>
               filename a = make_filename key (strftime_compact (wall_clock e (reads w))) \<and>
               files w' = (files w)(images_dir @ [filename a] \<mapsto> content) \<and>
               image_open e content = Some (wd, ht, fmt) \<and>
               size a = str_nat wd @ ''x'' @ str_nat ht \<and> format a = fmt)) \<and>
         (\<forall>n. r = Inl (GenerationFailed n VerifyError) \<longrightarrow>
            (\<exists>p url content. map_of reg key = Some p \<and>
               images_generate e (Suc (length (trace w))) (prompt p) sz = Some url \<and>
               requests_get e (Suc (length (trace w))) url = Some content \<and>
               image_open e content = None \<and>
               files w' = (files w)(images_dir @
                 [make_filename key (strftime_compact (wall_clock e (reads w)))] \<mapsto> content))) \<and>
         (\<forall>n. r = Inl (GenerationFailed n WriteError) \<longrightarrow>
            files w' = files w \<or>
            (\<exists>p url content k. map_of reg key = Some p \<and>
               images_generate e (Suc (length (trace w))) (prompt p) sz = Some url \<and>
               requests_get e (Suc (length (trace w))) url = Some content \<and>
               files w' = (files w)(images_dir @
                 [make_filename key (strftime_compact (wall_clock e (reads w)))] \<mapsto>
                   take k content))) \<and>
         (\<forall>err. r = Inl err \<longrightarrow>
            (\<forall>n. err \<noteq> GenerationFailed n VerifyError \<and> err \<noteq> GenerationFailed n WriteError) \<longrightarrow>
            files w' = files w)"
  using assms
  by (auto simp: generate_consumer_image_def Let_def now_def log_event_def write_file_def
      split: option.splits prod.splits if_splits fault.splits bool.splits)

text \<open>
  Witness for C2: a download that is not an image.
\<close>

theorem generate_consumer_image_outcomes_witness:
  "fst (generate_consumer_image consumer_personas env_corrupt ''estate_inheritor'' ''512x512''
      world0) = Inl (GenerationFailed ''Estate Inheritor'' VerifyError) \<and>
   (\<exists>p url content. map_of consumer_personas ''estate_inheritor'' = Some p \<and>
      images_generate env_corrupt (Suc (length (trace world0))) (prompt p) ''512x512'' = Some url \<and>
      requests_get env_corrupt (Suc (length (trace world0))) url = Some content \<and>
      image_open env_corrupt content = None \<and>
      files (snd (generate_consumer_image consumer_personas env_corrupt ''estate_inheritor''
        ''512x512'' world0)) =
      (files world0)(images_dir @ [make_filename ''estate_inheritor''
         (strftime_compact (wall_clock env_corrupt (reads world0)))] \<mapsto> content))"
proof -
  have ev: "fst (generate_consumer_image consumer_personas env_corrupt ''estate_inheritor''
      ''512x512'' world0) = Inl (GenerationFailed ''Estate Inheritor'' VerifyError)"
    by (simp add: gen_defs)
  have run: "generate_consumer_image consumer_personas env_corrupt ''estate_inheritor''
      ''512x512'' world0 =
     (fst (generate_consumer_image consumer_personas env_corrupt ''estate_inheritor''
        ''512x512'' world0),
      snd (generate_consumer_image consumer_personas env_corrupt ''estate_inheritor''
        ''512x512'' world0))"
    by simp
  from generate_consumer_image_outcomes [OF run] ev show ?thesis by blast
qed

text \<open>
  C2 as stated fails: after a failed verification the file that was written is still
  in the asset directory, with the bytes of the download; and when the write is cut after
  three characters, the file with those three characters is left there as well.
\<close>

theorem generate_consumer_image_leaves_file_counterexample:
  "fst (generate_consumer_image consumer_personas env_corrupt ''estate_inheritor'' ''512x512''
      world0) = Inl (GenerationFailed ''Estate Inheritor'' VerifyError) \<and>
   files world0 [''generated_images'', ''estate_inheritor_20240115_103000.png''] = None \<and>
   files (snd (generate_consumer_image consumer_personas env_corrupt ''estate_inheritor''
      ''512x512'' world0)) [''generated_images'', ''estate_inheritor_20240115_103000.png'']
     = Some ''<html>Service unavailable</html>'' \<and>
   fst (generate_consumer_image consumer_personas env_cut ''estate_inheritor'' ''512x512''
      world0) = Inl (GenerationFailed ''Estate Inheritor'' WriteError) \<and>
   files (snd (generate_consumer_image consumer_personas env_cut ''estate_inheritor''
      ''512x512'' world0)) [''generated_images'', ''estate_inheritor_20240115_103000.png'']
     = Some ''PNG''"
  by (simp add: gen_defs)

subsection \<open>Filenames\<close>

lemma below_ten:
  "(k::nat) < 10 \<Longrightarrow> k = 0 \<or> k = 1 \<or> k = 2 \<or> k = 3 \<or> k = 4 \<or> k = 5 \<or> k = 6 \<or> k = 7
     \<or> k = 8 \<or> k = 9"
  by arith

lemma digit_val_digit_char: "digit_val (digit_char n) = n mod 10"
proof -
  have "digit_val (''0123456789'' ! k) = k" if "k < 10" for k
    using below_ten [OF that] by (elim disjE) (simp_all add: digit_val_def)
  then show ?thesis by (simp add: digit_char_def)
qed

lemma is_digit_digit_char: "is_digit (digit_char n)"
proof -
  have "is_digit (''0123456789'' ! k)" if "k < 10" for k
    using below_ten [OF that] by (elim disjE) (simp_all add: is_digit_def)
  then show ?thesis by (simp add: digit_char_def)
qed

lemma read_two: "n < 100 \<Longrightarrow> read_nat [digit_char (n div 10), digit_char n] = n"
proof -
  assume "n < 100"
  then have "n div 10 < 10" by simp
  then have "n div 10 mod 10 = n div 10" by simp
  then show ?thesis
    by (simp add: read_nat_def digit_val_digit_char)
qed

lemma read_four:
  assumes "n < 10000"
  shows "read_nat [digit_char (n div 1000), digit_char (n div 100), digit_char (n div 10),
                   digit_char n] = n"
proof -
  from assms have "n div 1000 < 10" by simp
  then have a: "n div 1000 mod 10 = n div 1000" by simp
  have b: "n div 1000 = n div 100 div 10" by (simp add: div_mult2_eq)
  have c: "n div 100 = n div 10 div 10" by (simp add: div_mult2_eq)
  have "read_nat [digit_char (n div 1000), digit_char (n div 100), digit_char (n div 10),
                   digit_char n]
        = 10 * (10 * (10 * (n div 1000) + n div 100 mod 10) + n div 10 mod 10) + n mod 10"
    by (simp add: read_nat_def digit_val_digit_char a)
  also have "10 * (n div 1000) + n div 100 mod 10 = n div 100"
    unfolding b by simp
  also have "10 * (n div 100) + n div 10 mod 10 = n div 10"
    unfolding c by simp
  also have "10 * (n div 10) + n mod 10 = n" by simp
  finally show ?thesis .
qed

lemma parse_timestamp_strftime:
  assumes "valid_datetime d"
  shows "parse_timestamp (strftime_compact d) = Some d"
proof -
  from assms have r: "year d < 10000" "month d < 100" "day d < 100" "hour d < 100"
    "minute d < 100" "second d < 100"
    by (simp_all add: valid_datetime_def)
  have "parse_timestamp (strftime_compact d) =
     Some \<lparr>year = year d, month = month d, day = day d, hour = hour d, minute = minute d,
           second = second d\<rparr>"
    by (simp add: parse_timestamp_def strftime_compact_def pad2_def pad4_def
          is_digit_digit_char read_two read_four r)
  then show ?thesis by simp
qed

lemma length_strftime_compact: "length (strftime_compact d) = 15"
  by (simp add: strftime_compact_def pad2_def pad4_def)

lemma parse_filename_make_filename:
  assumes "parse_timestamp ts = Some d"
  shows "parse_filename (make_filename key ts) = Some (key, d)"
proof -
  from assms have len: "length ts = 15"
    by (simp add: parse_timestamp_def split: if_splits)
  show ?thesis
    by (simp add: parse_filename_def make_filename_def Let_def len nth_append assms)
qed

text \<open>
  C8 (as amended). The filename of a generated asset parses back to the persona key,
  whatever characters the key holds, and to the clock reading taken at the generation,
  for a reading with a four-digit year. That reading is no later than the reading that
  follows the generation when the clock does not run backwards.
\<close>

theorem filename_round_trip:
  assumes "generate_consumer_image reg e key sz w = (Inr a, w')"
    and "valid_datetime (wall_clock e (reads w))"
    and "\<forall>i j. i \<le> j \<longrightarrow> datetime_le (wall_clock e i) (wall_clock e j)"
  shows "parse_filename (filename a) = Some (key, wall_clock e (reads w)) \<and>
         persona_key a = key \<and>
         datetime_le (wall_clock e (reads w)) (wall_clock e (reads w'))"
proof -
  from assms(1) have f: "filename a = make_filename key (strftime_compact (wall_clock e (reads w)))"
    and k: "persona_key a = key" and rd: "reads w' = Suc (reads w)"
    by (auto simp: generate_consumer_image_def Let_def now_def log_event_def write_file_def
        split: option.splits prod.splits if_splits fault.splits bool.splits)
  from parse_filename_make_filename [OF parse_timestamp_strftime [OF assms(2)]] f
  have "parse_filename (filename a) = Some (key, wall_clock e (reads w))" by simp
  moreover from assms(3) rd have "datetime_le (wall_clock e (reads w)) (wall_clock e (reads w'))"
    by simp
  ultimately show ?thesis using k by simp
qed

text \<open>
  Witness for C8: a key with two underscores.
\<close>

theorem filename_round_trip_witness:
  "valid_datetime (wall_clock env_ok (reads world0)) \<and>
   (\<exists>a. fst (generate_consumer_image consumer_personas env_ok ''small_business_owner''
           ''512x512'' world0) = Inr a \<and>
        filename a = ''small_business_owner_20240115_103000.png'' \<and>
        parse_filename (filename a) = Some (''small_business_owner'', clock0))"
proof -
  have v: "valid_datetime (wall_clock env_ok (reads world0))"
    by (simp add: valid_datetime_def env_ok_def clock0_def)
  have m: "\<forall>i j. i \<le> j \<longrightarrow> datetime_le (wall_clock env_ok i) (wall_clock env_ok j)"
    by (simp add: env_ok_def clock0_def datetime_le_def datetime_key_def)
  have c: "wall_clock env_ok (reads world0) = clock0" by (simp add: env_ok_def)
  obtain a where
    ev: "fst (generate_consumer_image consumer_personas env_ok ''small_business_owner''
           ''512x512'' world0) = Inr a"
    and fn: "filename a = ''small_business_owner_20240115_103000.png''"
    by (simp add: gen_defs)
  then have run: "generate_consumer_image consumer_personas env_ok ''small_business_owner''
      ''512x512'' world0 =
      (Inr a, snd (generate_consumer_image consumer_personas env_ok ''small_business_owner''
      ''512x512'' world0))"
    by (metis prod.collapse)
  from filename_round_trip [OF run v m] ev fn v m c show ?thesis by auto
qed

text \<open>
  C8 as stated fails when the clock is set back during the generation: the generation
  succeeds, the filename carries the reading 01:59:59, and the reading of the clock that
  follows the generation is 01:00:00 of the same day.
\<close>

theorem filename_timestamp_after_now_counterexample:
  "map_sum id filename (fst (generate_consumer_image consumer_personas env_clock_back
      ''estate_inheritor'' ''512x512'' world0)) = Inr ''estate_inheritor_20241103_015959.png'' \<and>
   parse_filename ''estate_inheritor_20241103_015959.png'' =
     Some (''estate_inheritor'',
           \<lparr>year = 2024, month = 11, day = 3, hour = 1, minute = 59, second = 59\<rparr>) \<and>
   fst (now env_clock_back (snd (generate_consumer_image consumer_personas env_clock_back
      ''estate_inheritor'' ''512x512'' world0))) =
     \<lparr>year = 2024, month = 11, day = 3, hour = 1, minute = 0, second = 0\<rparr> \<and>
   \<not> datetime_le \<lparr>year = 2024, month = 11, day = 3, hour = 1, minute = 59, second = 59\<rparr>
        \<lparr>year = 2024, month = 11, day = 3, hour = 1, minute = 0, second = 0\<rparr>"
  by (simp add: gen_defs env_clock_back_def parse_filename_def parse_timestamp_def is_digit_def
      read_nat_def digit_val_def datetime_le_def datetime_key_def)

section \<open>Properties of the waitlist endpoint\<close>

lemma newline_not_digit: "digit_char n \<noteq> CHR 0x0A"
  using is_digit_digit_char [of n] by (auto simp: is_digit_def)

lemma strftime_line_no_newline: "CHR 0x0A \<notin> set (strftime_line t)"
  by (simp add: strftime_line_def pad2_def pad4_def newline_not_digit newline_not_digit [symmetric])

lemma strip_plain [simp]:
  "strip ''not-an-email'' = ''not-an-email''" "strip ''a@b.com'' = ''a@b.com''"
  by (simp_all add: strip_def is_space_def)

text \<open>
  C9. A body \<^verbatim>\<open>{"email": "not-an-email"}\<close> is answered with 400 and leaves the world as
  it was; a body \<^verbatim>\<open>{"email": "a@b.com"}\<close>, when the waitlist file can be opened for
  appending, is answered with 200 and \<^verbatim>\<open>success = True\<close>, and the file grows by the
  timestamp, the separator, the address and one newline.
\<close>

theorem join_waitlist_scenarios:
  "join_waitlist e (Object [''email'' \<mapsto> JString ''not-an-email'']) w =
     (\<lparr>status = 400, success = False, message = ''Invalid email address''\<rparr>, w) \<and>
   (write_ok e (length (trace w)) WAITLIST_FILE \<longrightarrow>
      status (fst (join_waitlist e (Object [''email'' \<mapsto> JString ''a@b.com'']) w)) = 200 \<and>
      success (fst (join_waitlist e (Object [''email'' \<mapsto> JString ''a@b.com'']) w)) \<and>
      files (snd (join_waitlist e (Object [''email'' \<mapsto> JString ''a@b.com'']) w)) =
        (files w)(WAITLIST_FILE \<mapsto>
           (case files w WAITLIST_FILE of None \<Rightarrow> [] | Some old \<Rightarrow> old) @
           strftime_line (wall_clock e (reads w)) @ '' | a@b.com'' @ [CHR 0x0A]) \<and>
      count_list (strftime_line (wall_clock e (reads w)) @ '' | a@b.com'' @ [CHR 0x0A])
        (CHR 0x0A) = 1)"
proof -
  have "count_list (strftime_line (wall_clock e (reads w))) (CHR 0x0A) = 0"
    using strftime_line_no_newline by (simp add: count_list_0_iff)
  then show ?thesis
    by (simp add: join_waitlist_def get_email_def append_line_def now_def log_event_def
        write_ok_def Let_def)
qed

section \<open>Properties of the style rule\<close>

lemma contains_iff: "contains needle hay \<longleftrightarrow> (\<exists>pre post. hay = pre @ needle @ post)"
proof (induction hay)
  case Nil
  then show ?case by auto
next
  case (Cons c cs)
  show ?case
  proof
    assume "contains needle (c # cs)"
    then consider "prefix needle (c # cs)" | "contains needle cs" by auto
    then show "\<exists>pre post. c # cs = pre @ needle @ post"
    proof cases
      case 1
      then obtain post where "c # cs = needle @ post" by (auto simp: prefix_def)
      then have "c # cs = [] @ needle @ post" by simp
      then show ?thesis by blast
    next
      case 2
      with Cons.IH obtain pre post where "cs = pre @ needle @ post" by blast
      then have "c # cs = (c # pre) @ needle @ post" by simp
      then show ?thesis by blast
    qed
  next
    assume "\<exists>pre post. c # cs = pre @ needle @ post"
    then obtain pre post where eq: "c # cs = pre @ needle @ post" by blast
    show "contains needle (c # cs)"
    proof (cases pre)
      case Nil
      with eq have "prefix needle (c # cs)" by (simp add: prefix_def)
      then show ?thesis by simp
    next
      case (Cons d pre')
      with eq have "cs = pre' @ needle @ post" by simp
      with Cons.IH have "contains needle cs" by blast
      then show ?thesis by simp
    qed
  qed
qed


text \<open>
  C10. The presence check is a substring test on the raw text: whenever the document
  holds \<^verbatim>\<open>.persona-image\<close> anywhere, \<^verbatim>\<open>add_persona_image_css\<close> returns \<^verbatim>\<open>True\<close> and the
  world, the document included, is untouched.
\<close>

theorem add_persona_image_css_substring_noop:
  assumes "files w (html_path project_root) = Some (pre @ ''.persona-image'' @ post)"
  shows "add_persona_image_css e project_root dry_run w = (Inr True, w)"
proof -
  have "contains ''.persona-image'' (pre @ ''.persona-image'' @ post)"
    unfolding contains_iff by blast
  with assms show ?thesis
    by (simp add: add_persona_image_css_def path_exists_def)
qed


section \<open>Concrete runs of the patcher\<close>

lemmas site_defs = site_root_def site_images_def site_listing_def site_world_def
  html_path_def path_exists_def

lemmas dom_defs = bind_card_def find_first_def match_persona_def PERSONA_MAPPING_def
  get_text_strip_def strip_def is_space_def get_latest_image_def glob_match_def
  get_web_image_path_def relative_to_def has_class_def node_at_def readdress_def
  soup_def no_results_def suffix_to_prefix

lemmas io_defs = update_html_with_images_def patch_cards_def create_backup_def backup_path_def
  write_file_def
  now_def log_event_def env_ok_def clock0_def strftime_compact_def pad2_def pad4_def
  digit_char_def

lemmas img_defs = emeka_img_def jake_img_def new_img_def emeka_tag_def jake_tag_def nl_def













text \<open>The plain site: both runs, and the trees up to whitespace.\<close>

lemma plain_cards:
  "update_cards site_root site_images site_listing False
     (map (Pair 0) (find_all (is_div_class ''persona-card'') (soup plain_dom)))
     [soup plain_dom] no_results =
   Inr ([soup plain_patched_dom, Elem ''[detached]'' [] [Text ''E''],
         Elem ''[detached]'' [] [Text ''J'']],
        no_results\<lparr>updated_personas :=
          [(''estate_inheritor'', ''Emeka'', ''estate_inheritor_20240115_103000.png''),
           (''reseller_entrepreneur'', ''Jake'', ''reseller_entrepreneur_20240115_103002.png'')]\<rparr>)"
  by (simp add: site_defs dom_defs plain_dom_def plain_patched_dom_def plain_card_def
      emeka_img_def jake_img_def)


lemma plain_norms:
  "norm_list plain_patched_dom = plain_patched_dom"
  "norm_list plain_reparsed = plain_patched_dom"
  "norm_list [reparsed_plain_card [emeka_img] ''Emeka, 37'', Text nl,
              reparsed_plain_card [jake_img] ''Jake, 28'', Text nl] = plain_patched_dom"
  by (simp_all add: plain_patched_dom_def plain_card_def plain_reparsed_def
      reparsed_plain_card_def img_defs strip_def is_space_def)


lemma plain_first_run:
  "update_html_with_images plain_lib env_ok site_root site_images site_listing False
     (site_world plain_html) =
   (Inr (no_results\<lparr>updated_personas :=
          [(''estate_inheritor'', ''Emeka'', ''estate_inheritor_20240115_103000.png''),
           (''reseller_entrepreneur'', ''Jake'', ''reseller_entrepreneur_20240115_103002.png'')]\<rparr>),
    plain_world_once)"
proof -
  have p: "parse plain_lib plain_html = plain_dom"
    by (simp add: plain_lib_def)
  have q: "prettify plain_lib plain_patched_dom = plain_patched_html"
    by (simp add: plain_lib_def plain_norms)
  have e: "html_path site_root \<noteq> backup_path site_root ''20240115_103000''"
    by (simp add: html_path_def backup_path_def)
  show ?thesis
    unfolding update_html_with_images_def patch_cards_def plain_world_once_def
    by (simp add: site_world_def path_exists_def p plain_cards)
       (simp add: q no_results_def create_backup_def now_def env_ok_def clock0_def
          strftime_compact_def pad2_def pad4_def digit_char_def write_file_def log_event_def
          soup_def e Let_def)
qed




section \<open>Properties of the write and of the validation\<close>

lemma backup_is_not_target: "backup_path project_root ts \<noteq> html_path project_root"
  by (simp add: backup_path_def html_path_def)

text \<open>
  C4. If \<^verbatim>\<open>update_html_with_images\<close> writes the target document, then the run is not a
  dry run, at least one persona was updated, and the run's effects are exactly the backup
  copy followed by the write, the backup holding the original content. The same holds
  when the write of the target is cut by an exception. Without a write, complete or cut,
  the target is unchanged, and a dry run or a run that updates no persona changes nothing.
\<close>

theorem update_html_writes_only_after_backup:
  assumes "update_html_with_images lib e project_root imgs ls dry_run w = (r, w')"
  shows "(Wrote (html_path project_root) \<in> set (drop (length (trace w)) (trace w')) \<longrightarrow>
            \<not> dry_run \<and> (\<exists>res. r = Inr res \<and> updated_personas res \<noteq> []) \<and>
            (\<exists>ts. drop (length (trace w)) (trace w') =
                    [Copied (html_path project_root) (backup_path project_root ts),
                     Wrote (html_path project_root)] \<and>
                  files w' (backup_path project_root ts) = files w (html_path project_root))) \<and>
         (Partial (html_path project_root) \<in> set (drop (length (trace w)) (trace w')) \<longrightarrow>
            \<not> dry_run \<and> r = Inl WriteFailed \<and>
            (\<exists>html roots res. files w (html_path project_root) = Some html \<and>
               patch_cards lib project_root imgs ls dry_run html = Inr (roots, res) \<and>
               updated_personas res \<noteq> []) \<and>
            (\<exists>ts. drop (length (trace w)) (trace w') =
                    [Copied (html_path project_root) (backup_path project_root ts),
                     Partial (html_path project_root)] \<and>
                  files w' (backup_path project_root ts) = files w (html_path project_root))) \<and>
         (Wrote (html_path project_root) \<notin> set (drop (length (trace w)) (trace w')) \<and>
          Partial (html_path project_root) \<notin> set (drop (length (trace w)) (trace w')) \<longrightarrow>
            files w' (html_path project_root) = files w (html_path project_root)) \<and>
         (dry_run \<or> (\<exists>res. r = Inr res \<and> updated_personas res = []) \<longrightarrow> w' = w)"
  using assms
  unfolding update_html_with_images_def create_backup_def write_file_def now_def log_event_def
    Let_def
  by (auto simp: backup_is_not_target backup_is_not_target [symmetric]
      split: if_splits option.splits sum.splits prod.splits fault.splits)

text \<open>
  C6 (the code departs from it). An image whose file exists but whose description is
  empty: the issue is appended, and the document is still reported valid.
\<close>

theorem validate_updates_missing_alt_still_valid:
  "validate_updates no_alt_lib site_root no_alt_world =
     Inr \<lparr>valid = True, issues = [''Missing alt text for image: a.png''],
          images_found = [(''a.png'', [])]\<rparr>"
  by (simp add: validate_updates_def validate_avatar_def no_alt_lib_def no_alt_world_def
      no_alt_html_def site_root_def html_path_def path_exists_def soup_def find_first_def
      has_class_def is_space_def get_attr_def path_join_def components_def Let_def)

text \<open>
  Witness for C9: the clock and file system of \<open>env_ok\<close>, with no waitlist file yet.
\<close>

theorem join_waitlist_scenarios_witness:
  "write_ok env_ok (length (trace world0)) WAITLIST_FILE \<and>
   status (fst (join_waitlist env_ok (Object [''email'' \<mapsto> JString ''a@b.com'']) world0)) = 200 \<and>
   files (snd (join_waitlist env_ok (Object [''email'' \<mapsto> JString ''a@b.com'']) world0))
     WAITLIST_FILE = Some (''2024-01-15 10:30:00 | a@b.com'' @ [CHR 0x0A])"
proof -
  have ok: "write_ok env_ok (length (trace world0)) WAITLIST_FILE"
    by (simp add: env_ok_def write_ok_def)
  have t: "strftime_line (wall_clock env_ok (reads world0)) = ''2024-01-15 10:30:00''"
    by (simp add: env_ok_def clock0_def strftime_line_def pad2_def pad4_def digit_char_def)
  have f: "files world0 WAITLIST_FILE = None"
    by (simp add: world0_def)
  from join_waitlist_scenarios [of env_ok world0] ok show ?thesis
    by (simp add: t f)
qed

text \<open>
  Witness for C10: the substring sits in the class attribute of an image, and no such
  rule is in the style section.
\<close>

theorem add_persona_image_css_substring_noop_witness:
  "files (site_world (css_pre @ ''.persona-image'' @ css_post)) (html_path site_root) =
     Some (css_pre @ ''.persona-image'' @ css_post) \<and>
   add_persona_image_css env_ok site_root False
     (site_world (css_pre @ ''.persona-image'' @ css_post)) =
     (Inr True, site_world (css_pre @ ''.persona-image'' @ css_post))"
proof -
  have f: "files (site_world (css_pre @ ''.persona-image'' @ css_post)) (html_path site_root) =
     Some (css_pre @ ''.persona-image'' @ css_post)"
    by (simp add: site_world_def)
  from add_persona_image_css_substring_noop [OF f] f show ?thesis by simp
qed

section \<open>Idempotence of the patch\<close>

subsection \<open>Paths into the tree\<close>

lemma subtree_Elem_Cons [simp]:
  "subtree (Elem t a cs) (i # r) = subtree_list cs (i # r)"
  by (simp add: subtree_list_def)

lemma subtree_list_simps [simp]:
  "subtree_list cs [] = None"
  "subtree_list [] p = None"
  "subtree_list (c # cs) (0 # r) = subtree c r"
  "subtree_list (c # cs) (Suc i # r) = subtree_list cs (i # r)"
  by (simp_all add: subtree_list_def split: list.splits)

lemma subtree_list_bump [simp]: "subtree_list (c # cs) (bump p) = subtree_list cs p"
  by (cases p) simp_all

lemma replace_children_Elem_Cons [simp]:
  "replace_children (Elem t a cs) (i # r) new = Elem t a (replace_list cs (i # r) new)"
  by (simp add: replace_list_def)

lemma replace_list_simps [simp]:
  "replace_list cs [] new = cs"
  "replace_list [] p new = []"
  "replace_list (c # cs) (0 # r) new = replace_children c r new # cs"
  "replace_list (c # cs) (Suc i # r) new = c # replace_list cs (i # r) new"
  by (simp_all add: replace_list_def split: list.splits)

lemma replace_list_bump [simp]: "replace_list (c # cs) (bump p) new = c # replace_list cs p new"
  by (cases p) simp_all

declare subtree.simps(3) [simp del] replace_children.simps(3) [simp del]

lemma bump_eq_Cons [simp]: "bump p = 0 # r \<longleftrightarrow> False"
  by (cases p) simp_all

lemma bump_inj [simp]: "bump p = bump q \<longleftrightarrow> p = q"
  by (cases p; cases q) simp_all

lemma find_all_sound:
  "p \<in> set (find_all P t) \<Longrightarrow> p \<noteq> [] \<and> (\<exists>n. subtree t p = Some n \<and> P n)"
  "p \<in> set (find_all_list P cs) \<Longrightarrow> p \<noteq> [] \<and> (\<exists>n. subtree_list cs p = Some n \<and> P n)"
proof (induction P t and P cs arbitrary: p and p rule: find_all_find_all_list.induct)
  case (1 P s)
  then show ?case by simp
next
  case (2 P t a cs)
  then have "p \<in> set (find_all_list P cs)" by simp
  from "2.IH" [OF this] show ?case by (cases p) auto
next
  case (3 P)
  then show ?case by simp
next
  case (4 P c cs)
  from "4.prems" consider "P c" "p = [0]" | q where "q \<in> set (find_all P c)" "p = 0 # q"
    | q where "q \<in> set (find_all_list P cs)" "p = bump q"
    by (auto split: if_splits)
  then show ?case
  proof cases
    case 1
    then show ?thesis by simp
  next
    case 2
    with "4.IH"(1) [of q] show ?thesis by auto
  next
    case 3
    with "4.IH"(2) [of q] show ?thesis by (cases q) auto
  qed
qed


subsection \<open>Reading a tree after a replacement\<close>

lemma subtree_Text [simp]: "subtree (Text s) p = (if p = [] then Some (Text s) else None)"
  by (cases p) simp_all

lemma subtree_append:
  "subtree t (p @ q) = (case subtree t p of None \<Rightarrow> None | Some c \<Rightarrow> subtree c q)"
proof (induction p arbitrary: t)
  case Nil
  show ?case by simp
next
  case (Cons i p)
  show ?case
  proof (cases t)
    case (Text s)
    then show ?thesis by simp
  next
    case (Elem tg a cs)
    then show ?thesis by (simp add: subtree_list_def Cons.IH)
  qed
qed

lemma replace_children_Text [simp]: "replace_children (Text s) p new = Text s"
  by simp



lemma replace_children_same:
  "subtree t a = Some (Elem tg at cs) \<Longrightarrow> replace_children t a cs = t"
proof (induction a arbitrary: t)
  case Nil
  then show ?case by simp
next
  case (Cons i a)
  show ?case
  proof (cases t)
    case (Text s)
    with Cons.prems show ?thesis by simp
  next
    case (Elem t' a' cs')
    with Cons.prems have i: "i < length cs'" and s: "subtree (cs' ! i) a = Some (Elem tg at cs)"
      by (auto simp: subtree_list_def split: if_splits)
    from Cons.IH [OF s] Elem i show ?thesis
      by (simp add: replace_list_def)
  qed
qed



lemma shallow_tests [simp]: "shallow (is_div_class cls)" "shallow (has_tag tg)"
  by (simp_all add: shallow_def)

subsection \<open>Searching a tree after a replacement\<close>




lemma zero_Cons_eq_bump [simp]: "0 # r = bump p \<longleftrightarrow> False"
  by (cases p) simp_all

lemma bump_not_zero: "p \<noteq> [] \<Longrightarrow> bump p \<noteq> 0 # r"
  by (cases p) simp_all


subsection \<open>One card\<close>

lemma bind_card_Replace:
  assumes "bind_card project_root imgs ls dry_run c = Replace q img entry"
  shows "find_first (is_div_class ''persona-avatar'') c = Some q"
    and "\<exists>web alt. img = new_img web alt"
    and "\<not> dry_run"
  using assms
  by (auto simp: bind_card_def split: option.splits prod.splits sum.splits if_splits)



lemma new_img_facts [simp]:
  "\<not> is_div_class cls (new_img web alt)"
  "\<not> has_tag ''h3'' (new_img web alt)"
  "find_all P (new_img web alt) = []"
  "children_of (new_img web alt) = []"
  by (simp_all add: new_img_def)

lemma new_img_no_match [simp]:
  "find_all_list (is_div_class cls) [new_img web alt] = []"
  "find_all_list (has_tag ''h3'') [new_img web alt] = []"
  by simp_all


subsection \<open>Patching a settled document\<close>

lemma no_card_below_img:
  assumes sub: "subtree T a = Some (Elem tg at [new_img web alt])"
    and p: "p \<in> set (find_all (is_div_class cls) T)"
  shows "\<not> strict_prefix a p"
proof
  assume "strict_prefix a p"
  then obtain i r where r: "p = a @ i # r"
    by (metis strict_prefixE' )
  from find_all_sound(1) [OF p] obtain n where n: "subtree T p = Some n" "is_div_class cls n"
    by auto
  from n(1) r sub have s: "subtree_list [new_img web alt] (i # r) = Some n"
    by (simp add: subtree_append)
  show False
  proof (cases i)
    case 0
    with s have "subtree (new_img web alt) r = Some n" by simp
    with n(2) show False by (cases r) (auto simp: new_img_def)
  next
    case (Suc k)
    with s show False by simp
  qed
qed

lemma update_cards_settled_root:
  assumes st: "settled project_root imgs ls T"
  shows "\<forall>c \<in> set pending. fst c = 0 \<and> snd c \<in> set (find_all (is_div_class ''persona-card'') T) \<Longrightarrow>
         update_cards project_root imgs ls False pending (T # ds) res = Inr (roots', res') \<Longrightarrow>
         hd roots' = T"
proof (induction pending arbitrary: ds res)
  case Nil
  then show ?case by auto
next
  case (Cons c pending)
  let ?C = "is_div_class ''persona-card''"
  from Cons.prems(1) obtain p where c: "c = (0, p)" and pm: "p \<in> set (find_all ?C T)"
    by (cases c) auto
  from find_all_sound(1) [OF pm] obtain crd where crd: "subtree T p = Some crd" by auto
  have na: "node_at (T # ds) c = Some crd" by (simp add: node_at_def c crd)
  from st pm crd have sc: "settled_card project_root imgs ls crd"
    by (auto simp: settled_def list_all_iff)
  from Cons.prems(1) have rest: "\<forall>c \<in> set pending. fst c = 0 \<and> snd c \<in> set (find_all ?C T)"
    by simp
  show ?case
  proof (cases "bind_card project_root imgs ls False crd")
    case Skip
    with Cons.prems(2) na
    have "update_cards project_root imgs ls False pending (T # ds) res = Inr (roots', res')"
      by simp
    from Cons.IH [OF rest this] show ?thesis .
  next
    case (Missing key)
    with Cons.prems(2) na
    have "update_cards project_root imgs ls False pending (T # ds)
            (res\<lparr>missing_images := missing_images res @ [key]\<rparr>) = Inr (roots', res')"
      by simp
    from Cons.IH [OF rest this] show ?thesis .
  next
    case (NoAvatar key)
    with Cons.prems(2) na
    have "update_cards project_root imgs ls False pending (T # ds)
            (res\<lparr>errors := errors res @ [''No avatar element found for '' @ key]\<rparr>)
          = Inr (roots', res')"
      by simp
    from Cons.IH [OF rest this] show ?thesis .
  next
    case (Raise err)
    with Cons.prems(2) na show ?thesis by simp
  next
    case Preview
    with Cons.prems(2) na
    have "update_cards project_root imgs ls False pending (T # ds) res = Inr (roots', res')"
      by simp
    from Cons.IH [OF rest this] show ?thesis .
  next
    case (Replace q img entry)
    from bind_card_Replace [OF Replace] obtain web alt where
      fq: "find_first (is_div_class ''persona-avatar'') crd = Some q"
      and img: "img = new_img web alt" by blast
    from sc Replace obtain av where av: "subtree crd q = Some av" "children_of av = [img]"
      by (auto simp: settled_card_def split: option.splits)
    from av(2) obtain tg at where el: "av = Elem tg at [img]" by (cases av) auto
    from crd av(1) el have sub: "subtree T (p @ q) = Some (Elem tg at [img])"
      by (simp add: subtree_append)
    have same: "replace_children T (p @ q) [img] = T"
      by (rule replace_children_same [OF sub])
    have rd: "map (readdress 0 (p @ q) (length (T # ds))) pending = pending"
    proof (rule map_idI)
      fix c' assume c': "c' \<in> set pending"
      with rest have "fst c' = 0" "snd c' \<in> set (find_all ?C T)" by auto
      with no_card_below_img [OF sub [unfolded img]] have "\<not> strict_prefix (p @ q) (snd c')"
        by blast
      then show "readdress 0 (p @ q) (length (T # ds)) c' = c'"
        by (simp add: readdress_def)
    qed
    from Cons.prems(2) na Replace c same rd av el
    have "update_cards project_root imgs ls False pending
            (T # (ds @ [Elem ''[detached]'' [] [img]]))
            (res\<lparr>updated_personas := updated_personas res @ [entry]\<rparr>) = Inr (roots', res')"
      by simp
    from Cons.IH [OF rest this] show ?thesis .
  qed
qed

subsection \<open>The first run settles the document\<close>




subsection \<open>Cards of a well-structured document\<close>




subsection \<open>Trees up to whitespace\<close>

lemma strip_headed:
  assumes "t = [] \<or> \<not> is_space (hd t)"
  shows "rev (dropWhile is_space (rev t)) = [] \<or>
         \<not> is_space (hd (rev (dropWhile is_space (rev t))))"
proof (cases t)
  case Nil
  then show ?thesis by simp
next
  case (Cons x t')
  with assms have nx: "\<not> is_space x" by simp
  have "\<exists>zs. dropWhile is_space (rev t' @ [x]) = zs @ [x]"
  proof (cases "\<forall>y\<in>set (rev t'). is_space y")
    case True
    have "dropWhile is_space (rev t' @ [x]) = dropWhile is_space [x]"
      by (rule dropWhile_append2) (use True in auto)
    with nx show ?thesis by simp
  next
    case False
    then obtain y where "y \<in> set (rev t')" "\<not> is_space y" by blast
    then have "dropWhile is_space (rev t' @ [x]) = dropWhile is_space (rev t') @ [x]"
      by (rule dropWhile_append1)
    then show ?thesis by blast
  qed
  then obtain zs where "dropWhile is_space (rev t) = zs @ [x]" using Cons by auto
  then show ?thesis using nx by simp
qed

lemma dropWhile_headed: "t = [] \<or> \<not> P (hd t) \<Longrightarrow> dropWhile P t = t"
  by (cases t) auto

lemma dropWhile_is_headed: "dropWhile P s = [] \<or> \<not> P (hd (dropWhile P s))"
  using hd_dropWhile [of P s] by blast

lemma strip_strip [simp]: "strip (strip s) = strip s"
proof -
  let ?t = "dropWhile is_space s"
  let ?u = "rev (dropWhile is_space (rev ?t))"
  have u: "?u = [] \<or> \<not> is_space (hd ?u)"
    by (rule strip_headed) (rule dropWhile_is_headed)
  then have 1: "dropWhile is_space ?u = ?u" by (rule dropWhile_headed)
  have "dropWhile is_space (rev ?u) = rev ?u"
    by (simp add: dropWhile_idem)
  with 1 show ?thesis by (simp add: strip_def)
qed

lemma is_blank_norm [simp]: "is_blank (norm n) = is_blank n"
  by (cases n) auto

lemma norm_idem [simp]:
  "norm (norm n) = norm n"
  "norm_list (norm_list cs) = norm_list cs"
  by (induction n and cs rule: norm_norm_list.induct) auto

lemma all_strings_norm:
  "filter (\<lambda>s. s \<noteq> []) (map strip (all_strings (norm n))) =
   filter (\<lambda>s. s \<noteq> []) (map strip (all_strings n))"
  "filter (\<lambda>s. s \<noteq> []) (map strip (all_strings_list (norm_list cs))) =
   filter (\<lambda>s. s \<noteq> []) (map strip (all_strings_list cs))"
proof (induction n and cs rule: norm_norm_list.induct)
  case (4 c cs)
  show ?case
  proof (cases "is_blank c")
    case True
    then obtain s where "c = Text s" "strip s = []" by (cases c) auto
    with 4 show ?thesis by simp
  next
    case False
    with 4 show ?thesis by simp
  qed
qed auto

lemma get_text_strip_norm [simp]: "get_text_strip (norm n) = get_text_strip n"
  by (simp add: get_text_strip_def all_strings_norm)

subsection \<open>The first node found\<close>






subsection \<open>Properties of all the nodes found\<close>




lemma no_text_tests [simp]: "\<not> is_div_class cls (Text s)" "\<not> has_tag tg (Text s)"
  by simp_all




subsection \<open>Cards settled up to whitespace\<close>




lemma norm_list_new_img [simp]:
  "norm_list [new_img web alt] = [new_img web alt]"
  "\<not> is_blank (new_img web alt)"
  "norm (new_img web alt) = new_img web alt"
  by (simp_all add: new_img_def)



subsection \<open>Patching a document that is settled up to whitespace\<close>




subsection \<open>Two runs on a file\<close>









text \<open>
  Witness for C4: the plain site, patched for both personas.
\<close>

theorem update_html_writes_only_after_backup_witness:
  "Wrote (html_path site_root) \<in> set (drop (length (trace (site_world plain_html)))
      (trace (snd (update_html_with_images plain_lib env_ok site_root site_images site_listing
         False (site_world plain_html))))) \<and>
   (\<exists>ts. drop (length (trace (site_world plain_html)))
           (trace (snd (update_html_with_images plain_lib env_ok site_root site_images
              site_listing False (site_world plain_html)))) =
         [Copied (html_path site_root) (backup_path site_root ts), Wrote (html_path site_root)] \<and>
         files (snd (update_html_with_images plain_lib env_ok site_root site_images
              site_listing False (site_world plain_html))) (backup_path site_root ts) =
         files (site_world plain_html) (html_path site_root))"
proof -
  have w: "Wrote (html_path site_root) \<in> set (drop (length (trace (site_world plain_html)))
      (trace (snd (update_html_with_images plain_lib env_ok site_root site_images site_listing
         False (site_world plain_html)))))"
    by (simp add: plain_first_run) (simp add: plain_world_once_def site_world_def)
  have run: "update_html_with_images plain_lib env_ok site_root site_images site_listing False
      (site_world plain_html) =
      (fst (update_html_with_images plain_lib env_ok site_root site_images site_listing False
         (site_world plain_html)),
       snd (update_html_with_images plain_lib env_ok site_root site_images site_listing False
         (site_world plain_html)))"
    by simp
  from update_html_writes_only_after_backup [OF run] w
  show ?thesis by blast
qed

end
